theory Spec2Isabelle
  imports Main
begin

section \<open>Python strings\<close>

text \<open>
  In the configuration and in resolution a Python \<open>str\<close> is modelled as a
  \<^typ>\<open>string\<close>; a \<^typ>\<open>char\<close> stands for the Unicode code point of the same number, so
  this part of the model covers the strings whose code points lie below 256 (ASCII and
  the Latin-1 supplement).  The character classes below are those of CPython for these
  code points.  The persisted environment file is modelled further down over all code
  points.
\<close>

definition is_space :: "char \<Rightarrow> bool" where
  \<comment> \<open>\<open>str.isspace\<close>: what \<open>str.strip()\<close> removes.\<close>
  "is_space c =
     (let n = (of_char c :: nat)
      in (9 \<le> n \<and> n \<le> 13) \<or> (28 \<le> n \<and> n \<le> 32) \<or> n = 133 \<or> n = 160)"

definition strip :: "string \<Rightarrow> string" where
  "strip s = rev (dropWhile is_space (rev (dropWhile is_space s)))"

definition lower_char :: "char \<Rightarrow> char" where
  "lower_char c =
     (let n = (of_char c :: nat)
      in if (65 \<le> n \<and> n \<le> 90) \<or> (192 \<le> n \<and> n \<le> 222 \<and> n \<noteq> 215)
         then char_of (n + 32) else c)"

definition lower :: "string \<Rightarrow> string" where
  "lower s = map lower_char s"

definition startswith :: "'a list \<Rightarrow> 'a list \<Rightarrow> bool" where
  "startswith s p = (take (length p) s = p)"

fun join :: "string \<Rightarrow> string list \<Rightarrow> string" where
  "join sep [] = []"
| "join sep [x] = x"
| "join sep (x # y # ys) = x @ sep @ join sep (y # ys)"

fun replace_from :: "nat \<Rightarrow> string \<Rightarrow> string \<Rightarrow> string \<Rightarrow> string" where
  \<comment> \<open>The scan of \<open>str.replace\<close> for a non-empty \<open>old\<close>: left to right, occurrences
      that do not overlap; \<open>k\<close> characters of a matched occurrence are still to be skipped.\<close>
  "replace_from k old new [] = []"
| "replace_from k old new (c # cs) =
     (if 0 < k then replace_from (k - 1) old new cs
      else if take (length old) (c # cs) = old
           then new @ replace_from (length old - 1) old new cs
           else c # replace_from 0 old new cs)"

definition replace :: "string \<Rightarrow> string \<Rightarrow> string \<Rightarrow> string" where
  \<comment> \<open>\<open>s.replace(old, new)\<close>; with an empty \<open>old\<close> Python puts \<open>new\<close> before every
      character and at the end.\<close>
  "replace s old new =
     (if old = [] then new @ concat (map (\<lambda>c. c # new) s)
      else replace_from 0 old new s)"

section \<open>Architecture normalisation and the platform option\<close>

subsection \<open>\<open>build.py\<close>\<close>

definition build_normalize_arch :: "string \<Rightarrow> string" where
  "build_normalize_arch a0 =
     (let a = lower (strip a0)
      in if a \<in> set [''arm64''] then ''aarch64''
         else if startswith a ''armv7'' \<or> a = ''armv7l'' then ''armv7''
         else a)"

definition build_choose_platform_option :: "string \<Rightarrow> string \<Rightarrow> string option" where
  "build_choose_platform_option target_arch source_arch =
     (let targ = build_normalize_arch target_arch;
          src = build_normalize_arch source_arch
      in if targ \<in> set [''develop'', ''x86_64''] then Some ''--platform=linux/amd64''
         else if targ \<in> set [''deploy'', ''arm'', ''aarch64''] then Some ''--platform=linux/arm64''
         else if targ = ''armv7'' then Some ''--platform=linux/arm/v7''
         else None)"

subsection \<open>\<open>run.py\<close>\<close>

definition run_normalize_arch :: "string \<Rightarrow> string" where
  "run_normalize_arch a =
     (if a = [] then []
      else let s = lower (strip a)
           in if s \<in> set [''arm64''] then ''aarch64''
              else if s \<in> set [''arm'', ''armv7l''] \<or> startswith s ''armv7'' then ''arm''
              else s)"

definition run_choose_platform_option :: "string \<Rightarrow> string \<Rightarrow> string option" where
  "run_choose_platform_option target_arch source_arch =
     (let targ = run_normalize_arch target_arch;
          src = run_normalize_arch source_arch
      in if targ \<in> set [''develop'', ''x86_64''] then Some ''--platform=linux/amd64''
         else if targ \<in> set [''deploy'', ''arm'', ''aarch64''] then Some ''--platform=linux/arm64''
         else if targ = ''armv7'' then Some ''--platform=linux/arm/v7''
         else None)"

section \<open>Effects, errors and dictionaries\<close>

text \<open>
  A run of the Python code is modelled by the list of its observable events (lines
  printed, file-system queries) together with how it ended: with an exception
  (\<open>Raised\<close>), with the early \<open>return\<close> that follows a printed diagnostic and
  yields \<open>None\<close> (\<open>Failed\<close>), or with a value (\<open>Ok\<close>).
\<close>

datatype py_error =
  KeyError string | FileNotFoundError string | SystemExit nat
  | UnicodeEncodeError | UnicodeDecodeError

datatype event = Print string | IsDir string | IsFile string

datatype 'a outcome = Raised py_error | Failed | Ok 'a

type_synonym 'a comp = "event list \<times> 'a outcome"

definition ret :: "'a \<Rightarrow> 'a comp" where
  "ret x = ([], Ok x)"

definition cbind :: "'a comp \<Rightarrow> ('a \<Rightarrow> 'b comp) \<Rightarrow> 'b comp" where
  \<comment> \<open>Sequencing: the second statement runs only if the first ended normally.\<close>
  "cbind m f =
     (case m of
        (t, Ok x) \<Rightarrow> (case f x of (t', r) \<Rightarrow> (t @ t', r))
      | (t, Raised e) \<Rightarrow> (t, Raised e)
      | (t, Failed) \<Rightarrow> (t, Failed))"

definition field :: "string \<Rightarrow> 'v option \<Rightarrow> 'v comp" where
  \<comment> \<open>\<open>config[k]\<close> on the top-level mapping; an absent key raises KeyError.\<close>
  "field k v = (case v of None \<Rightarrow> ([], Raised (KeyError k)) | Some x \<Rightarrow> ([], Ok x))"

definition getitem :: "(string \<rightharpoonup> 'v) \<Rightarrow> string \<Rightarrow> 'v comp" where
  \<comment> \<open>\<open>d[k]\<close> on a nested mapping.\<close>
  "getitem d k = field k (d k)"

definition print_and_return :: "string \<Rightarrow> 'a comp" where
  \<comment> \<open>\<open>print(msg); return\<close>\<close>
  "print_and_return msg = ([Print msg], Failed)"

text \<open>
  A Python \<open>dict\<close> whose order matters (the resolved environment) is an association
  list with distinct keys in insertion order.  Assigning to a key that is present keeps
  its position; a new key goes to the end.
\<close>

type_synonym dict = "(string \<times> string) list"

fun dict_set :: "('k \<times> 'v) list \<Rightarrow> 'k \<Rightarrow> 'v \<Rightarrow> ('k \<times> 'v) list" where
  "dict_set [] k v = [(k, v)]"
| "dict_set ((k', v') # d) k v = (if k' = k then (k, v) # d else (k', v') # dict_set d k v)"

definition dict_or :: "dict \<Rightarrow> dict \<Rightarrow> dict" where
  \<comment> \<open>\<open>a | b\<close>: a copy of \<open>a\<close> updated with the items of \<open>b\<close>, in order.\<close>
  "dict_or a b = foldl (\<lambda>d (k, v). dict_set d k v) a b"

definition keys :: "('k \<times> 'v) list \<Rightarrow> 'k list" where
  "keys d = map fst d"

section \<open>The declarative configuration and the host\<close>

text \<open>
  The document loaded from \<open>env.yaml\<close>, typed as the code uses it: scalars are strings,
  \<open>volumes\<close> and the entries of \<open>supported\<close> are lists of strings, the other blocks are
  mappings from strings to strings.  A top-level field is \<open>None\<close> when its key is absent
  from the document.
\<close>

record config =
  cfg_repo_author :: "string option"
  cfg_project_repo :: "string option"
  cfg_volumes :: "string list option"
  cfg_container_env :: "(string \<rightharpoonup> string) option"
  cfg_ros2_distro :: "string option"
  cfg_middleware :: "string option"
  cfg_target_platorm :: "string option"
  cfg_docker_base_images :: "(string \<rightharpoonup> string) option"
  cfg_docker_file_image_container :: "(string \<rightharpoonup> string) option"
  cfg_supported :: "(string \<rightharpoonup> string list) option"
  cfg_container_run_cmd :: "string option"

text \<open>
  The text of a file is a list of Unicode code points, with no bound on them; what is
  stored is a list of bytes.
\<close>

type_synonym ustring = "nat list"

type_synonym bytes = "nat list"

text \<open>
  What the code reads from its surroundings: the module constants computed from
  \<open>__file__\<close>, \<open>pathlib\<close>'s joining of paths (taken as a parameter), the file-system
  queries, \<open>platform.machine()\<close>, the YAML documents that can be loaded, and the two
  codecs at work on the persisted file (taken as parameters): the encoder of the
  locale's default encoding, which \<open>open(filename, "w")\<close> uses, and the UTF-8 decoder,
  which \<open>read_text(encoding="utf-8")\<close> uses.  A codec returns \<open>None\<close> where Python raises
  \<open>UnicodeEncodeError\<close> or \<open>UnicodeDecodeError\<close>.
\<close>

record host =
  ROOT_DIR :: string
  ROBOTICS_CONTAINER_PATH :: string
  path_join :: "string \<Rightarrow> string \<Rightarrow> string"
  is_dir :: "string \<Rightarrow> bool"
  is_file :: "string \<Rightarrow> bool"
  platform_machine :: string
  yaml_documents :: "string \<rightharpoonup> config"
  default_encode :: "ustring \<Rightarrow> bytes option"
  utf8_decode :: "bytes \<Rightarrow> ustring option"

definition SOURCE_FILEPATH :: "host \<Rightarrow> string" where
  "SOURCE_FILEPATH h = path_join h (path_join h (ROBOTICS_CONTAINER_PATH h) ''config'') ''env.yaml''"

definition TARGET_FILEPATH :: "host \<Rightarrow> string" where
  "TARGET_FILEPATH h = path_join h (path_join h (ROBOTICS_CONTAINER_PATH h) ''config'') ''.env''"

definition probe_is_dir :: "host \<Rightarrow> string \<Rightarrow> bool comp" where
  "probe_is_dir h p = ([IsDir p], Ok (is_dir h p))"

definition probe_is_file :: "host \<Rightarrow> string \<Rightarrow> bool comp" where
  "probe_is_file h p = ([IsFile p], Ok (is_file h p))"

section \<open>\<open>generate_config.py\<close>\<close>

definition shlex_safe :: "char \<Rightarrow> bool" where
  \<comment> \<open>The characters outside \<open>[^\\w@%+=:,./-]\<close> under \<open>re.ASCII\<close>.\<close>
  "shlex_safe c =
     (let n = (of_char c :: nat)
      in (48 \<le> n \<and> n \<le> 57) \<or> (65 \<le> n \<and> n \<le> 90) \<or> (97 \<le> n \<and> n \<le> 122)
         \<or> c \<in> set ''_@%+=:,./-'')"

definition shlex_quote :: "string \<Rightarrow> string" where
  "shlex_quote s =
     (if s = [] then [CHR 0x27, CHR 0x27]
      else if list_all shlex_safe s then s
      else [CHR 0x27] @ replace s [CHR 0x27] [CHR 0x27, CHR 0x22, CHR 0x27, CHR 0x22, CHR 0x27]
           @ [CHR 0x27])"

definition bash_array_assignment :: "string list \<Rightarrow> string" where
  "bash_array_assignment items = ''('' @ join '' '' (map shlex_quote items) @ '')''"

definition unsupported_architecture :: "string \<Rightarrow> string list \<Rightarrow> string" where
  "unsupported_architecture target_arch supported_architectures =
     ''Unsupported architecture: '' @ target_arch @ '', Supported architectures: ''
       @ join '', '' supported_architectures"

definition unsupported_middleware :: "string \<Rightarrow> string list \<Rightarrow> string" where
  "unsupported_middleware middleware supported_middlewares =
     ''Unsupported middleware: '' @ middleware @ '', Supported middlewares: ''
       @ join '', '' supported_middlewares"

definition unsupported_distribution :: "string \<Rightarrow> string list \<Rightarrow> string" where
  "unsupported_distribution ros2_distro supported_ros2_distro =
     ''Unsupported ROS2 distribution: '' @ ros2_distro @ '', Supported distributions: ''
       @ join '', '' supported_ros2_distro"

definition missing_directory :: "string \<Rightarrow> string" where
  "missing_directory p = ''Directory does not exist: '' @ p"

definition missing_dockerfile :: "string \<Rightarrow> string" where
  "missing_dockerfile dockerfile_name = ''Dockerfile does not exist: '' @ dockerfile_name"

definition supported_list :: "config \<Rightarrow> string \<Rightarrow> string list comp" where
  \<comment> \<open>\<open>config["supported"][k]\<close>\<close>
  "supported_list config k = cbind (field ''supported'' (cfg_supported config)) (\<lambda>s. getitem s k)"

definition check_constraints :: "config \<Rightarrow> string \<Rightarrow> string \<Rightarrow> string \<Rightarrow> string list comp" where
  \<comment> \<open>Lines 47 to 61; the supported architectures are used again by later messages.\<close>
  "check_constraints config target_arch middleware ros2_distro =
     cbind (supported_list config ''architectures'') (\<lambda>supported_architectures.
     if target_arch \<notin> set supported_architectures
     then print_and_return (unsupported_architecture target_arch supported_architectures)
     else
     cbind (supported_list config ''middlewares'') (\<lambda>supported_middlewares.
     if middleware \<notin> set supported_middlewares
     then print_and_return (unsupported_middleware middleware supported_middlewares)
     else
     cbind (supported_list config ''ros2_distros'') (\<lambda>supported_ros2_distro.
     if ros2_distro \<notin> set supported_ros2_distro
     then print_and_return (unsupported_distribution ros2_distro supported_ros2_distro)
     else ret supported_architectures)))"

definition repo_env :: "host \<Rightarrow> string \<Rightarrow> string \<Rightarrow> (string \<times> dict) comp" where
  \<comment> \<open>Lines 63 to 73.\<close>
  "repo_env h repo_author project_repo =
     (let local_project_repo_path = path_join h (ROOT_DIR h) project_repo
      in cbind (probe_is_dir h local_project_repo_path) (\<lambda>exists.
         if \<not> exists then print_and_return (missing_directory local_project_repo_path)
         else ret (local_project_repo_path,
                   [(''REPO_AUTHOR'', repo_author), (''PROJECT_REPO'', project_repo)])))"

fun check_volumes :: "host \<Rightarrow> string list \<Rightarrow> unit comp" where
  \<comment> \<open>The loop of lines 76 to 79.\<close>
  "check_volumes h [] = ret ()"
| "check_volumes h (volume # rest) =
     cbind (probe_is_dir h volume) (\<lambda>exists.
     if \<not> exists then print_and_return (missing_directory volume)
     else check_volumes h rest)"

definition volumes_env :: "host \<Rightarrow> string list \<Rightarrow> string \<Rightarrow> dict comp" where
  \<comment> \<open>Lines 75 to 83.\<close>
  "volumes_env h volumes_list local_project_repo_path =
     cbind (check_volumes h volumes_list) (\<lambda>_.
     ret [(''LOCAL_WS_PATH'', local_project_repo_path),
          (''VOLUMES'', bash_array_assignment volumes_list)])"

definition container_env :: "config \<Rightarrow> (string \<rightharpoonup> string) \<Rightarrow> string \<Rightarrow> dict comp" where
  \<comment> \<open>Lines 85 to 96.\<close>
  "container_env config container_env0 project_repo =
     cbind (getitem container_env0 ''container_usr'') (\<lambda>usr0.
     let container_home = ''/home/'' @ usr0;
         container_ws = container_home @ ''/'' @ project_repo
     in
     cbind (getitem container_env0 ''container_usr'') (\<lambda>usr.
     cbind (getitem container_env0 ''container_psw'') (\<lambda>psw.
     cbind (getitem container_env0 ''container_uid'') (\<lambda>uid.
     cbind (getitem container_env0 ''container_gid'') (\<lambda>gid.
     cbind (field ''container_run_cmd'' (cfg_container_run_cmd config)) (\<lambda>run_cmd.
     ret [(''CONTAINER_USR'', usr),
          (''CONTAINER_PSW'', psw),
          (''CONTAINER_UID'', uid),
          (''CONTAINER_GID'', gid),
          (''CONTAINER_HOME'', container_home),
          (''CONTAINER_WS'', container_ws),
          (''CONTAINER_RUN_CMD'', run_cmd)]))))))"

definition choose_base_image ::
  "(string \<rightharpoonup> string) \<Rightarrow> string \<Rightarrow> string \<Rightarrow> string list
     \<Rightarrow> (string \<times> string \<times> string \<times> string) comp" where
  \<comment> \<open>Lines 99 to 130: base image, build stage, tag and architecture token.\<close>
  "choose_base_image docker_base_images middleware target_arch supported_architectures =
     (if middleware = ''ros2'' then
        if target_arch \<in> set [''develop'', ''x86_64''] then
          cbind (getitem docker_base_images ''x86_full_image'') (\<lambda>base_image.
          ret (base_image, ''develop-stage'', ''develop'', ''x86_64''))
        else if target_arch \<in> set [''deploy'', ''arm'', ''aarch64''] then
          cbind (getitem docker_base_images ''arm_base_image'') (\<lambda>base_image.
          ret (base_image, ''deploy-stage'', ''deploy'', ''arm''))
        else print_and_return (unsupported_architecture target_arch supported_architectures)
      else if middleware = ''micro-ros'' then
        cbind (getitem docker_base_images ''microros_base_image'') (\<lambda>base_image.
        if target_arch \<in> set [''develop''] then
          ret (base_image, ''develop-stage'', ''develop'', ''x86_64'')
        else if target_arch \<in> set [''deploy''] then
          ret (base_image, ''deploy-stage'', ''deploy'', ''arm'')
        else print_and_return (unsupported_architecture target_arch supported_architectures))
      else print_and_return (unsupported_middleware middleware [''ros2'', ''micro-ros'']))"

definition base_image_env ::
  "host \<Rightarrow> (string \<rightharpoonup> string) \<Rightarrow> string \<Rightarrow> string \<Rightarrow> string \<Rightarrow> string list
     \<Rightarrow> (string \<times> dict) comp" where
  \<comment> \<open>Lines 98 to 137; the tag is used again by the image names.\<close>
  "base_image_env h docker_base_images middleware target_arch ros2_distro supported_architectures =
     cbind (choose_base_image docker_base_images middleware target_arch supported_architectures)
       (\<lambda>(base_image, build_stage, tag, arch).
     ret (tag,
          [(''BASE_IMAGE'', replace base_image ''ROS2_DISTRO'' ros2_distro),
           (''BUILD_STAGE'', build_stage),
           (''TARGET_ARCH'', arch),
           (''SOURCE_ARCH'', platform_machine h)]))"

definition image_env ::
  "host \<Rightarrow> (string \<rightharpoonup> string) \<Rightarrow> string \<Rightarrow> string \<Rightarrow> string \<Rightarrow> string \<Rightarrow> string
     \<Rightarrow> dict comp" where
  \<comment> \<open>Lines 139 to 153.\<close>
  "image_env h docker_file_image_container middleware repo_author project_repo ros2_distro tag =
     cbind (getitem docker_file_image_container ''dockerfile'') (\<lambda>dockerfile_template.
     let dockerfile_name = replace dockerfile_template ''MIDDLEWARE'' middleware
     in
     cbind (probe_is_file h
              (path_join h (path_join h (ROBOTICS_CONTAINER_PATH h) ''docker'') dockerfile_name))
       (\<lambda>exists.
     if \<not> exists then print_and_return (missing_dockerfile dockerfile_name)
     else
     cbind (getitem docker_file_image_container ''docker_image'') (\<lambda>docker_image_template.
     let docker_image_name =
           replace (replace (replace docker_image_template ''REPO_AUTHOR'' repo_author)
                      ''PROJECT_REPO'' project_repo) ''ROS2_DISTRO'' ros2_distro
     in
     cbind (getitem docker_file_image_container ''docker_container'') (\<lambda>docker_container_template.
     let docker_container_name =
           replace (replace docker_container_template ''PROJECT_REPO'' project_repo) ''TAG'' tag
     in
     ret [(''DOCKERFILE'', dockerfile_name),
          (''DOCKER_IMAGE'', docker_image_name),
          (''DOCKER_CONTAINER'', docker_container_name),
          (''DOCKER_IMAGE_TAG'', tag)]))))"

definition partial_envs ::
  "host \<Rightarrow> config \<Rightarrow> string \<Rightarrow> (dict \<times> dict \<times> dict \<times> dict \<times> dict) comp" where
  \<comment> \<open>Lines 37 to 153: the five partial mappings, in the order in which they are merged.\<close>
  "partial_envs h config target_arch =
     cbind (field ''repo_author'' (cfg_repo_author config)) (\<lambda>repo_author.
     cbind (field ''project_repo'' (cfg_project_repo config)) (\<lambda>project_repo.
     cbind (field ''volumes'' (cfg_volumes config)) (\<lambda>volumes_list.
     cbind (field ''container_env'' (cfg_container_env config)) (\<lambda>container_env0.
     cbind (field ''ros2_distro'' (cfg_ros2_distro config)) (\<lambda>ros2_distro.
     cbind (field ''middleware'' (cfg_middleware config)) (\<lambda>middleware.
     cbind (field ''target_platorm'' (cfg_target_platorm config)) (\<lambda>target_platorm.
     cbind (field ''docker_base_images'' (cfg_docker_base_images config)) (\<lambda>docker_base_images.
     cbind (field ''docker_file_image_container'' (cfg_docker_file_image_container config))
       (\<lambda>docker_file_image_container.
     cbind (check_constraints config target_arch middleware ros2_distro)
       (\<lambda>supported_architectures.
     cbind (repo_env h repo_author project_repo) (\<lambda>(local_project_repo_path, repo_env1).
     cbind (volumes_env h volumes_list local_project_repo_path) (\<lambda>volumes_env1.
     cbind (container_env config container_env0 project_repo) (\<lambda>container_env1.
     cbind (base_image_env h docker_base_images middleware target_arch ros2_distro
              supported_architectures) (\<lambda>(tag, base_image_env1).
     cbind (image_env h docker_file_image_container middleware repo_author project_repo
              ros2_distro tag) (\<lambda>image_env1.
     ret (repo_env1, volumes_env1, container_env1, base_image_env1, image_env1))))))))))))))))"

definition generate_config :: "host \<Rightarrow> config \<Rightarrow> string \<Rightarrow> dict comp" where
  \<comment> \<open>Lines 155 to 158: the final merge.\<close>
  "generate_config h config target_arch =
     cbind (partial_envs h config target_arch)
       (\<lambda>(repo_env1, volumes_env1, container_env1, base_image_env1, image_env1).
     ret (dict_or (dict_or (dict_or (dict_or repo_env1 volumes_env1) container_env1)
            base_image_env1) image_env1))"

definition resolved_keys :: "string list" where
  \<comment> \<open>The keys that lines 70 to 153 bind, in the order of the merge.\<close>
  "resolved_keys =
     [''REPO_AUTHOR'', ''PROJECT_REPO'', ''LOCAL_WS_PATH'', ''VOLUMES'',
      ''CONTAINER_USR'', ''CONTAINER_PSW'', ''CONTAINER_UID'', ''CONTAINER_GID'',
      ''CONTAINER_HOME'', ''CONTAINER_WS'', ''CONTAINER_RUN_CMD'',
      ''BASE_IMAGE'', ''BUILD_STAGE'', ''TARGET_ARCH'', ''SOURCE_ARCH'',
      ''DOCKERFILE'', ''DOCKER_IMAGE'', ''DOCKER_CONTAINER'', ''DOCKER_IMAGE_TAG'']"

text \<open>
  The persisted files are a store from paths to bytes.  A string of the model is the
  text of its code points.  Writing the environment encodes each line, as each call of
  \<open>f.write\<close> does, in the locale's default encoding; when a line cannot be encoded the
  exception leaves the file with the lines written before it.  (On a system whose line
  separator is not \<open>\\n\<close> the separator written is read back as \<open>\\n\<close>; the model
  writes \<open>\\n\<close>.)
\<close>

type_synonym store = "string \<rightharpoonup> bytes"

definition ustring_of :: "string \<Rightarrow> ustring" where
  "ustring_of s = map of_char s"

definition ustring_dict :: "dict \<Rightarrow> (ustring \<times> ustring) list" where
  "ustring_dict d = map (\<lambda>kv. (ustring_of (fst kv), ustring_of (snd kv))) d"

definition env_line :: "ustring \<times> ustring \<Rightarrow> ustring" where
  \<comment> \<open>\<open>f"{key}={value}\\n"\<close>\<close>
  "env_line kv = fst kv @ ustring_of ''='' @ snd kv @ [10]"

fun write_lines :: "host \<Rightarrow> ustring list \<Rightarrow> bytes \<Rightarrow> bytes \<times> unit outcome" where
  \<comment> \<open>The calls of \<open>f.write\<close>, with the bytes written so far.\<close>
  "write_lines h [] written = (written, Ok ())"
| "write_lines h (line # rest) written =
     (case default_encode h line of
        None \<Rightarrow> (written, Raised UnicodeEncodeError)
      | Some b \<Rightarrow> write_lines h rest (written @ b))"

definition write_env_config ::
  "host \<Rightarrow> (ustring \<times> ustring) list \<Rightarrow> string \<Rightarrow> store \<Rightarrow> store \<times> unit outcome" where
  "write_env_config h env_vars filename st =
     (case write_lines h (map env_line env_vars) [] of
        (written, r) \<Rightarrow> (st(filename \<mapsto> written), r))"

definition load_yaml_config :: "host \<Rightarrow> string \<Rightarrow> config comp" where
  "load_yaml_config h file_path =
     (case yaml_documents h file_path of
        None \<Rightarrow> ([], Raised (FileNotFoundError file_path))
      | Some config \<Rightarrow> ([], Ok config))"

definition main :: "host \<Rightarrow> string \<Rightarrow> store \<Rightarrow> store \<times> unit comp" where
  \<comment> \<open>Lines 172 to 180: the store after the run, and the run.\<close>
  "main h target_arch st =
     (case cbind (load_yaml_config h (SOURCE_FILEPATH h)) (\<lambda>config.
             generate_config h config target_arch) of
        (t, Ok env_vars) \<Rightarrow>
          (case write_env_config h (ustring_dict env_vars) (TARGET_FILEPATH h) st of
             (st', r) \<Rightarrow> (st', (t, r)))
      | (t, Failed) \<Rightarrow> (st, (t @ [Print ''Configuration generation failed. Exiting.''], Ok ()))
      | (t, Raised e) \<Rightarrow> (st, (t, Raised e)))"

section \<open>\<open>build.py\<close>: generating and reading the persisted environment\<close>

definition run_generate_config :: "host \<Rightarrow> string \<Rightarrow> string option \<Rightarrow> store \<Rightarrow> store \<times> unit comp" where
  \<comment> \<open>Lines 34 to 47; \<open>target_arch or platform.machine()\<close> takes the machine for
      \<open>None\<close> and for the empty string.\<close>
  "run_generate_config h root_dir target_arch st =
     (let config_path = path_join h (path_join h root_dir ''config'') ''env.yaml'';
          arch = (case target_arch of
                    None \<Rightarrow> platform_machine h
                  | Some a \<Rightarrow> if a = [] then platform_machine h else a)
      in case cbind (load_yaml_config h config_path) (\<lambda>config.
                generate_config h config arch) of
           (t, Ok env_vars) \<Rightarrow>
             (case write_env_config h (ustring_dict env_vars)
                     (path_join h (path_join h root_dir ''config'') ''.env'') st of
                (st', r) \<Rightarrow> (st', (t, r)))
         | (t, Failed) \<Rightarrow>
             (st, (t @ [Print ''Configuration generation failed. Exiting.''], Raised (SystemExit 1)))
         | (t, Raised e) \<Rightarrow> (st, (t, Raised e)))"

text \<open>
  Reading decodes the bytes as UTF-8 and then works on code points of any size.  The
  two character classes are those of CPython: \<open>str.isspace\<close>, which \<open>str.strip()\<close>
  removes, and the line boundaries of \<open>str.splitlines()\<close>.
\<close>

definition unicode_space :: "nat \<Rightarrow> bool" where
  "unicode_space n =
     ((9 \<le> n \<and> n \<le> 13) \<or> (28 \<le> n \<and> n \<le> 32) \<or> n = 133 \<or> n = 160 \<or> n = 5760
      \<or> (8192 \<le> n \<and> n \<le> 8202) \<or> n = 8232 \<or> n = 8233 \<or> n = 8239 \<or> n = 8287
      \<or> n = 12288)"

definition unicode_linebreak :: "nat \<Rightarrow> bool" where
  "unicode_linebreak n =
     ((10 \<le> n \<and> n \<le> 13) \<or> (28 \<le> n \<and> n \<le> 30) \<or> n = 133 \<or> n = 8232 \<or> n = 8233)"

definition strip_ustring :: "ustring \<Rightarrow> ustring" where
  "strip_ustring s = rev (dropWhile unicode_space (rev (dropWhile unicode_space s)))"

fun universal_newlines :: "ustring \<Rightarrow> ustring" where
  \<comment> \<open>Reading in text mode: \<open>\\r\\n\<close> and \<open>\\r\<close> become \<open>\\n\<close>.\<close>
  "universal_newlines [] = []"
| "universal_newlines [c] = (if c = 13 then [10] else [c])"
| "universal_newlines (c # d # cs) =
     (if c = 13 \<and> d = 10 then 10 # universal_newlines cs
      else if c = 13 then 10 # universal_newlines (d # cs)
      else c # universal_newlines (d # cs))"

fun splitlines_from :: "ustring \<Rightarrow> ustring \<Rightarrow> ustring list" where
  \<comment> \<open>\<open>str.splitlines()\<close>, with the line read so far; \<open>\\r\\n\<close> is one boundary and a
      final boundary opens no further line.\<close>
  "splitlines_from cur [] = (if cur = [] then [] else [cur])"
| "splitlines_from cur [c] = (if unicode_linebreak c then [cur] else [cur @ [c]])"
| "splitlines_from cur (c # d # cs) =
     (if c = 13 \<and> d = 10 then cur # splitlines_from [] cs
      else if unicode_linebreak c then cur # splitlines_from [] (d # cs)
      else splitlines_from (cur @ [c]) (d # cs))"

definition splitlines :: "ustring \<Rightarrow> ustring list" where
  "splitlines s = splitlines_from [] s"

definition parse_line :: "(ustring \<times> ustring) list \<Rightarrow> ustring \<Rightarrow> (ustring \<times> ustring) list" where
  \<comment> \<open>The body of the loop of lines 59 to 67; \<open>split("=", 1)\<close> cuts at the first \<open>=\<close>
      (code point 61).\<close>
  "parse_line env line0 =
     (let line = strip_ustring line0
      in if line = [] \<or> startswith line (ustring_of ''#'') then env
         else if 61 \<notin> set line then env
         else let key = takeWhile (\<lambda>c. c \<noteq> 61) line;
                  val = tl (dropWhile (\<lambda>c. c \<noteq> 61) line)
              in dict_set env (strip_ustring key) (strip_ustring val))"

definition parse_env_file :: "host \<Rightarrow> store \<Rightarrow> string \<Rightarrow> (ustring \<times> ustring) list outcome" where
  "parse_env_file h st env_path =
     (case st env_path of
        None \<Rightarrow> Raised (FileNotFoundError (''Expected env file not found: '' @ env_path))
      | Some written \<Rightarrow>
          (case utf8_decode h written of
             None \<Rightarrow> Raised UnicodeDecodeError
           | Some content \<Rightarrow>
               Ok (foldl parse_line [] (splitlines (universal_newlines content)))))"

section \<open>Example inputs\<close>

definition host_example :: host where
  "host_example =
     \<lparr>ROOT_DIR = ''/ws'', ROBOTICS_CONTAINER_PATH = ''/ws/rc'',
      path_join = (\<lambda>a b. a @ ''/'' @ b),
      is_dir = (\<lambda>p. p \<in> set [''/ws/proj'', ''/data'']),
      is_file = (\<lambda>p. p \<in> set [''/ws/rc/docker/Dockerfile.ros2'', ''/ws/rc/docker/Dockerfile.micro-ros'']),
      platform_machine = ''x86_64'',
      yaml_documents = Map.empty,
      default_encode = (\<lambda>t. if list_all (\<lambda>c. c < 128) t then Some t else None),
      utf8_decode = (\<lambda>b. if list_all (\<lambda>c. c < 128) b then Some b else None)\<rparr>"

definition config_example :: config where
  "config_example =
     \<lparr>cfg_repo_author = Some ''vince'',
      cfg_project_repo = Some ''proj'',
      cfg_volumes = Some [''/data''],
      cfg_container_env = Some [''container_usr'' \<mapsto> ''dev'', ''container_psw'' \<mapsto> ''pw'',
        ''container_uid'' \<mapsto> ''1000'', ''container_gid'' \<mapsto> ''1000''],
      cfg_ros2_distro = Some ''humble'',
      cfg_middleware = Some ''ros2'',
      cfg_target_platorm = Some ''linux'',
      cfg_docker_base_images = Some [''x86_full_image'' \<mapsto> ''osrf/ros:ROS2_DISTRO-desktop'',
        ''arm_base_image'' \<mapsto> ''arm64v8/ros:ROS2_DISTRO'',
        ''microros_base_image'' \<mapsto> ''microros/base:ROS2_DISTRO''],
      cfg_docker_file_image_container = Some [''dockerfile'' \<mapsto> ''Dockerfile.MIDDLEWARE'',
        ''docker_image'' \<mapsto> ''REPO_AUTHOR/PROJECT_REPO-ROS2_DISTRO'',
        ''docker_container'' \<mapsto> ''PROJECT_REPO-TAG''],
      cfg_supported = Some [''architectures'' \<mapsto> [''develop'', ''deploy'', ''aarch64''],
        ''middlewares'' \<mapsto> [''ros2'', ''micro-ros''],
        ''ros2_distros'' \<mapsto> [''humble'']],
      cfg_container_run_cmd = Some ''bash''\<rparr>"

definition env_example_develop :: dict where
  "env_example_develop =
     [(''REPO_AUTHOR'', ''vince''), (''PROJECT_REPO'', ''proj''),
      (''LOCAL_WS_PATH'', ''/ws/proj''), (''VOLUMES'', ''(/data)''),
      (''CONTAINER_USR'', ''dev''), (''CONTAINER_PSW'', ''pw''),
      (''CONTAINER_UID'', ''1000''), (''CONTAINER_GID'', ''1000''),
      (''CONTAINER_HOME'', ''/home/dev''), (''CONTAINER_WS'', ''/home/dev/proj''),
      (''CONTAINER_RUN_CMD'', ''bash''),
      (''BASE_IMAGE'', ''osrf/ros:humble-desktop''),
      (''BUILD_STAGE'', ''develop-stage''), (''TARGET_ARCH'', ''x86_64''),
      (''SOURCE_ARCH'', ''x86_64''), (''DOCKERFILE'', ''Dockerfile.ros2''),
      (''DOCKER_IMAGE'', ''vince/proj-humble''),
      (''DOCKER_CONTAINER'', ''proj-develop''),
      (''DOCKER_IMAGE_TAG'', ''develop'')]"

definition env_example_deploy :: dict where
  "env_example_deploy =
     [(''REPO_AUTHOR'', ''vince''), (''PROJECT_REPO'', ''proj''),
      (''LOCAL_WS_PATH'', ''/ws/proj''), (''VOLUMES'', ''(/data)''),
      (''CONTAINER_USR'', ''dev''), (''CONTAINER_PSW'', ''pw''),
      (''CONTAINER_UID'', ''1000''), (''CONTAINER_GID'', ''1000''),
      (''CONTAINER_HOME'', ''/home/dev''), (''CONTAINER_WS'', ''/home/dev/proj''),
      (''CONTAINER_RUN_CMD'', ''bash''),
      (''BASE_IMAGE'', ''arm64v8/ros:humble''),
      (''BUILD_STAGE'', ''deploy-stage''), (''TARGET_ARCH'', ''arm''),
      (''SOURCE_ARCH'', ''x86_64''), (''DOCKERFILE'', ''Dockerfile.ros2''),
      (''DOCKER_IMAGE'', ''vince/proj-humble''),
      (''DOCKER_CONTAINER'', ''proj-deploy''),
      (''DOCKER_IMAGE_TAG'', ''deploy'')]"

definition example_trace :: "event list" where
  "example_trace = [IsDir ''/ws/proj'', IsDir ''/data'', IsFile ''/ws/rc/docker/Dockerfile.ros2'']"

definition config_leftover :: config where
  "config_leftover =
     config_example\<lparr>cfg_docker_file_image_container :=
       Some [''dockerfile'' \<mapsto> ''Dockerfile.MIDDLEWARE'',
             ''docker_image'' \<mapsto> ''REPO_AUTHOR/PROJECT_REPO-MIDDLEWARE:TAG'',
             ''docker_container'' \<mapsto> ''PROJECT_REPO-TAG'']\<rparr>"

definition config_leftovers :: config where
  "config_leftovers =
     config_example\<lparr>cfg_docker_base_images :=
       Some [''x86_full_image'' \<mapsto> ''osrf/ros:ROS2_DISTRO-TAG'',
             ''arm_base_image'' \<mapsto> ''arm64v8/ros:ROS2_DISTRO'',
             ''microros_base_image'' \<mapsto> ''microros/base:ROS2_DISTRO''],
       cfg_docker_file_image_container :=
       Some [''dockerfile'' \<mapsto> ''Dockerfile.MIDDLEWARE.TAG'',
             ''docker_image'' \<mapsto> ''REPO_AUTHOR/PROJECT_REPO-MIDDLEWARE:TAG'',
             ''docker_container'' \<mapsto> ''PROJECT_REPO-TAG-MIDDLEWARE'']\<rparr>"

definition host_leftovers :: host where
  "host_leftovers = host_example\<lparr>is_file := (\<lambda>p. p = ''/ws/rc/docker/Dockerfile.ros2.TAG'')\<rparr>"

definition config_unsupported :: config where
  "config_unsupported =
     config_example\<lparr>cfg_project_repo := Some ''missing'',
                    cfg_ros2_distro := Some ''foxy'',
                    cfg_middleware := Some ''zenoh''\<rparr>"

definition config_micro_ros :: config where
  "config_micro_ros = config_example\<lparr>cfg_middleware := Some ''micro-ros''\<rparr>"

definition host_loaded :: host where
  "host_loaded = host_example\<lparr>yaml_documents := [''/ws/rc/config/env.yaml'' \<mapsto> config_unsupported]\<rparr>"

definition config_trailing :: config where
  "config_trailing = config_example\<lparr>cfg_container_run_cmd := Some ''bash ''\<rparr>"

section \<open>Architecture normalisation\<close>

lemmas str_defs = lower_def strip_def lower_char_def is_space_def startswith_def char_of_eq_iff

lemma build_normalize_arch_cases:
  "build_normalize_arch a =
     (if lower (strip a) = ''arm64'' then ''aarch64''
      else if startswith (lower (strip a)) ''armv7'' then ''armv7''
      else lower (strip a))"
  by (auto simp: build_normalize_arch_def Let_def startswith_def)

lemma run_normalize_arch_never_armv7: "run_normalize_arch a \<noteq> ''armv7''"
  by (auto simp: run_normalize_arch_def Let_def startswith_def)

text \<open>
  In \<open>build.py\<close> the platform option is the function of the normalised target that the
  specification describes, and the source architecture plays no part.
\<close>

lemma build_choose_platform_option_spec:
  "build_choose_platform_option target_arch source_arch =
     (if build_normalize_arch target_arch = ''develop'' \<or> build_normalize_arch target_arch = ''x86_64''
      then Some ''--platform=linux/amd64''
      else if build_normalize_arch target_arch = ''deploy'' \<or> build_normalize_arch target_arch = ''arm''
              \<or> build_normalize_arch target_arch = ''aarch64''
      then Some ''--platform=linux/arm64''
      else if build_normalize_arch target_arch = ''armv7'' then Some ''--platform=linux/arm/v7''
      else None)
   \<and> build_choose_platform_option ''armv7l'' source_arch = Some ''--platform=linux/arm/v7''
   \<and> build_choose_platform_option target_arch source_arch
       = build_choose_platform_option target_arch source_arch'"
  by (simp add: build_choose_platform_option_def Let_def build_normalize_arch_def str_defs)

text \<open>
  In \<open>run.py\<close> the branch for \<open>armv7\<close> can never be taken: its normaliser sends every
  \<open>armv7\<close> spelling to \<open>arm\<close>.
\<close>

lemma run_choose_platform_option_never_arm_v7:
  "run_choose_platform_option target_arch source_arch \<noteq> Some ''--platform=linux/arm/v7''"
  by (simp add: run_choose_platform_option_def Let_def run_normalize_arch_never_armv7)

text \<open>
  C2 (platform option selector).  The claim asks the arm/v7 flag for the raw target token
  \<open>armv7l\<close>.  The selector of \<open>build.py\<close> returns it; the selector of \<open>run.py\<close>, on the
  same token and for every source architecture, returns the arm64 flag.
\<close>

theorem run_choose_platform_option_armv7l:
  "run_choose_platform_option ''armv7l'' source_arch = Some ''--platform=linux/arm64''
   \<and> build_choose_platform_option ''armv7l'' source_arch = Some ''--platform=linux/arm/v7''"
  by (simp add: run_choose_platform_option_def build_choose_platform_option_def Let_def
        run_normalize_arch_def build_normalize_arch_def str_defs)

text \<open>
  In \<open>build.py\<close> normalisation does what the specification describes, for every token:
  it trims and lower-cases the token, returns \<open>aarch64\<close> when that form is \<open>arm64\<close>,
  \<open>armv7\<close> when it starts with \<open>armv7\<close>, and the form itself otherwise.  It is a total
  function: there is no error path.
\<close>

lemma build_normalize_arch_listed:
  "build_normalize_arch ''arm64'' = ''aarch64''"
  "build_normalize_arch ''ARM64'' = ''aarch64''"
  "build_normalize_arch '' arm64 '' = ''aarch64''"
  "build_normalize_arch ''armv7'' = ''armv7''"
  "build_normalize_arch ''armv7l'' = ''armv7''"
  "build_normalize_arch ''ARMV7L'' = ''armv7''"
  by (simp_all add: build_normalize_arch_def str_defs)

text \<open>
  The normaliser of \<open>run.py\<close> agrees with it on every token whose trimmed, lower-cased
  form does not start with \<open>armv7\<close>, so on the three \<open>arm64\<close> tokens.
\<close>

lemma run_normalize_arch_agrees:
  "\<not> startswith (lower (strip a)) ''armv7'' \<Longrightarrow> run_normalize_arch a = build_normalize_arch a"
proof -
  have empty: "lower (strip []) = []"
    by (simp add: lower_def strip_def)
  assume "\<not> startswith (lower (strip a)) ''armv7''"
  with empty show ?thesis
    by (auto simp: run_normalize_arch_def build_normalize_arch_def Let_def startswith_def)
qed

text \<open>
  C3 (architecture normalisation).  The claim asks \<open>armv7\<close> for the tokens \<open>armv7\<close>,
  \<open>armv7l\<close> and \<open>ARMV7L\<close>.  The normaliser of \<open>build.py\<close> returns it; the normaliser of
  \<open>run.py\<close> returns \<open>arm\<close> for all three.
\<close>

theorem run_normalize_arch_armv7:
  "run_normalize_arch ''armv7'' = ''arm''
   \<and> run_normalize_arch ''armv7l'' = ''arm''
   \<and> run_normalize_arch ''ARMV7L'' = ''arm''
   \<and> build_normalize_arch ''armv7'' = ''armv7''
   \<and> build_normalize_arch ''armv7l'' = ''armv7''
   \<and> build_normalize_arch ''ARMV7L'' = ''armv7''"
  by (simp add: run_normalize_arch_def build_normalize_arch_def str_defs)

section \<open>Sequencing and the stages of resolution\<close>

lemma cbind_Ok: "cbind (t, Ok x) f = (t @ fst (f x), snd (f x))"
  by (simp add: cbind_def split: prod.splits)

lemma cbind_Raised [simp]: "cbind (t, Raised e) f = (t, Raised e)"
  by (simp add: cbind_def)

lemma cbind_Failed [simp]: "cbind (t, Failed) f = (t, Failed)"
  by (simp add: cbind_def)

lemma cbind_ret [simp]: "cbind (ret x) f = f x"
  by (simp add: ret_def cbind_Ok)

lemma cbind_Ok_iff:
  "cbind m f = (t, Ok y) \<longleftrightarrow> (\<exists>t1 x t2. m = (t1, Ok x) \<and> f x = (t2, Ok y) \<and> t = t1 @ t2)"
  by (cases m; cases "snd m") (auto simp: cbind_def split: prod.splits)

lemma field_simps [simp]:
  "field k (Some x) = ([], Ok x)"
  "field k None = ([], Raised (KeyError k))"
  by (simp_all add: field_def)

lemma field_Ok_iff [simp]: "field k v = (t, Ok x) \<longleftrightarrow> t = [] \<and> v = Some x"
  by (cases v) auto

lemma getitem_Ok_iff [simp]: "getitem d k = (t, Ok x) \<longleftrightarrow> t = [] \<and> d k = Some x"
  by (simp add: getitem_def)

lemma ret_Ok_iff [simp]: "ret x = (t, Ok y) \<longleftrightarrow> t = [] \<and> x = y"
  by (auto simp: ret_def)

lemma print_and_return_not_Ok [simp]: "print_and_return msg \<noteq> (t, Ok y)"
  by (simp add: print_and_return_def)

lemma supported_list_Ok_iff [simp]:
  "supported_list config k = (t, Ok xs) \<longleftrightarrow>
     t = [] \<and> (\<exists>s. cfg_supported config = Some s \<and> s k = Some xs)"
  by (auto simp: supported_list_def cbind_Ok_iff)

lemma check_constraints_Ok_iff:
  "check_constraints config target_arch middleware ros2_distro = (t, Ok archs) \<longleftrightarrow>
     t = [] \<and>
     (\<exists>s mws ds. cfg_supported config = Some s
        \<and> s ''architectures'' = Some archs \<and> target_arch \<in> set archs
        \<and> s ''middlewares'' = Some mws \<and> middleware \<in> set mws
        \<and> s ''ros2_distros'' = Some ds \<and> ros2_distro \<in> set ds)"
  by (auto simp: check_constraints_def cbind_Ok_iff split: if_splits)

lemma repo_env_Ok_iff:
  "repo_env h repo_author project_repo = (t, Ok r) \<longleftrightarrow>
     t = [IsDir (path_join h (ROOT_DIR h) project_repo)]
     \<and> is_dir h (path_join h (ROOT_DIR h) project_repo)
     \<and> r = (path_join h (ROOT_DIR h) project_repo,
            [(''REPO_AUTHOR'', repo_author), (''PROJECT_REPO'', project_repo)])"
  by (auto simp: repo_env_def probe_is_dir_def Let_def cbind_Ok_iff)

lemma check_volumes_Cons:
  "check_volumes h (v # vs) =
     (if is_dir h v then (IsDir v # fst (check_volumes h vs), snd (check_volumes h vs))
      else ([IsDir v, Print (missing_directory v)], Failed))"
  by (simp add: probe_is_dir_def print_and_return_def cbind_Ok)

declare check_volumes.simps(2) [simp del]

lemma check_volumes_snd: "snd (check_volumes h vs) = Ok u \<longleftrightarrow> list_all (is_dir h) vs"
  by (induction vs) (simp_all add: ret_def check_volumes_Cons)

lemma check_volumes_fst:
  "list_all (is_dir h) vs \<Longrightarrow> fst (check_volumes h vs) = map IsDir vs"
  by (induction vs) (simp_all add: ret_def check_volumes_Cons)

lemma check_volumes_Ok_iff:
  "check_volumes h vs = (t, Ok u) \<longleftrightarrow> t = map IsDir vs \<and> list_all (is_dir h) vs"
  using check_volumes_snd [of h vs u] check_volumes_fst [of h vs]
  by (cases "check_volumes h vs") auto

lemma volumes_env_Ok_iff:
  "volumes_env h volumes_list p = (t, Ok d) \<longleftrightarrow>
     t = map IsDir volumes_list \<and> list_all (is_dir h) volumes_list
     \<and> d = [(''LOCAL_WS_PATH'', p), (''VOLUMES'', bash_array_assignment volumes_list)]"
  by (auto simp: volumes_env_def cbind_Ok_iff check_volumes_Ok_iff)

lemma container_env_Ok_iff:
  "container_env config ce project_repo = (t, Ok d) \<longleftrightarrow>
     t = [] \<and>
     (\<exists>usr psw uid gid run_cmd.
        ce ''container_usr'' = Some usr \<and> ce ''container_psw'' = Some psw
        \<and> ce ''container_uid'' = Some uid \<and> ce ''container_gid'' = Some gid
        \<and> cfg_container_run_cmd config = Some run_cmd
        \<and> d = [(''CONTAINER_USR'', usr), (''CONTAINER_PSW'', psw), (''CONTAINER_UID'', uid),
               (''CONTAINER_GID'', gid), (''CONTAINER_HOME'', ''/home/'' @ usr),
               (''CONTAINER_WS'', (''/home/'' @ usr) @ ''/'' @ project_repo),
               (''CONTAINER_RUN_CMD'', run_cmd)])"
  by (auto simp: container_env_def cbind_Ok_iff Let_def)

lemma choose_base_image_Ok_iff:
  "choose_base_image dbi middleware target_arch archs = (t, Ok r) \<longleftrightarrow>
     t = [] \<and>
     (middleware = ''ros2'' \<and> target_arch \<in> set [''develop'', ''x86_64'']
        \<and> (\<exists>b. dbi ''x86_full_image'' = Some b \<and> r = (b, ''develop-stage'', ''develop'', ''x86_64''))
      \<or> middleware = ''ros2'' \<and> target_arch \<in> set [''deploy'', ''arm'', ''aarch64'']
        \<and> (\<exists>b. dbi ''arm_base_image'' = Some b \<and> r = (b, ''deploy-stage'', ''deploy'', ''arm''))
      \<or> middleware = ''micro-ros'' \<and> target_arch = ''develop''
        \<and> (\<exists>b. dbi ''microros_base_image'' = Some b \<and> r = (b, ''develop-stage'', ''develop'', ''x86_64''))
      \<or> middleware = ''micro-ros'' \<and> target_arch = ''deploy''
        \<and> (\<exists>b. dbi ''microros_base_image'' = Some b \<and> r = (b, ''deploy-stage'', ''deploy'', ''arm'')))"
  (is "?L = ?R")
proof -
  consider (ros2) "middleware = ''ros2''" | (micro) "middleware = ''micro-ros''"
    | (other) "middleware \<noteq> ''ros2''" "middleware \<noteq> ''micro-ros''" by blast
  then show ?thesis
  proof cases
    case ros2
    consider (a) "target_arch = ''develop''" | (b) "target_arch = ''x86_64''"
      | (c) "target_arch = ''deploy''" | (d) "target_arch = ''arm''"
      | (e) "target_arch = ''aarch64''"
      | (f) "target_arch \<noteq> ''develop''" "target_arch \<noteq> ''x86_64''" "target_arch \<noteq> ''deploy''"
            "target_arch \<noteq> ''arm''" "target_arch \<noteq> ''aarch64''"
      by blast
    then show ?thesis
    proof cases
      case a show ?thesis unfolding ros2 a by (simp add: choose_base_image_def cbind_Ok_iff; blast)
    next
      case b show ?thesis unfolding ros2 b by (simp add: choose_base_image_def cbind_Ok_iff; blast)
    next
      case c show ?thesis unfolding ros2 c by (simp add: choose_base_image_def cbind_Ok_iff; blast)
    next
      case d show ?thesis unfolding ros2 d by (simp add: choose_base_image_def cbind_Ok_iff; blast)
    next
      case e show ?thesis unfolding ros2 e by (simp add: choose_base_image_def cbind_Ok_iff; blast)
    next
      case f then show ?thesis unfolding ros2 by (simp add: choose_base_image_def)
    qed
  next
    case micro
    consider (a) "target_arch = ''develop''" | (c) "target_arch = ''deploy''"
      | (f) "target_arch \<noteq> ''develop''" "target_arch \<noteq> ''deploy''"
      by blast
    then show ?thesis
    proof cases
      case a show ?thesis unfolding micro a by (simp add: choose_base_image_def cbind_Ok_iff; blast)
    next
      case c show ?thesis unfolding micro c by (simp add: choose_base_image_def cbind_Ok_iff; blast)
    next
      case f then show ?thesis unfolding micro by (simp add: choose_base_image_def cbind_Ok_iff)
    qed
  next
    case other
    then show ?thesis by (simp add: choose_base_image_def)
  qed
qed

lemma base_image_env_Ok_iff:
  "base_image_env h dbi middleware target_arch ros2_distro archs = (t, Ok r) \<longleftrightarrow>
     t = [] \<and>
     (\<exists>base_image build_stage tag arch.
        choose_base_image dbi middleware target_arch archs = ([], Ok (base_image, build_stage, tag, arch))
        \<and> r = (tag, [(''BASE_IMAGE'', replace base_image ''ROS2_DISTRO'' ros2_distro),
                     (''BUILD_STAGE'', build_stage), (''TARGET_ARCH'', arch),
                     (''SOURCE_ARCH'', platform_machine h)]))"
proof -
  have t: "choose_base_image dbi middleware target_arch archs = (t1, Ok x) \<Longrightarrow> t1 = []" for t1 x
    by (simp add: choose_base_image_Ok_iff)
  show ?thesis
    unfolding base_image_env_def cbind_Ok_iff
    by (auto simp: split_paired_all dest: t)
qed

lemma image_env_Ok_iff:
  "image_env h dfic middleware repo_author project_repo ros2_distro tag = (t, Ok d) \<longleftrightarrow>
     (\<exists>df di dc.
        dfic ''dockerfile'' = Some df \<and> dfic ''docker_image'' = Some di
        \<and> dfic ''docker_container'' = Some dc
        \<and> t = [IsFile (path_join h (path_join h (ROBOTICS_CONTAINER_PATH h) ''docker'')
                        (replace df ''MIDDLEWARE'' middleware))]
        \<and> is_file h (path_join h (path_join h (ROBOTICS_CONTAINER_PATH h) ''docker'')
                        (replace df ''MIDDLEWARE'' middleware))
        \<and> d = [(''DOCKERFILE'', replace df ''MIDDLEWARE'' middleware),
               (''DOCKER_IMAGE'',
                replace (replace (replace di ''REPO_AUTHOR'' repo_author)
                           ''PROJECT_REPO'' project_repo) ''ROS2_DISTRO'' ros2_distro),
               (''DOCKER_CONTAINER'',
                replace (replace dc ''PROJECT_REPO'' project_repo) ''TAG'' tag),
               (''DOCKER_IMAGE_TAG'', tag)])"
  by (cases "dfic ''dockerfile''")
     (auto simp: image_env_def Let_def cbind_Ok_iff probe_is_file_def split: if_splits)

lemma partial_envs_Ok_iff:
  "partial_envs h config target_arch = (t, Ok (e1, e2, e3, e4, e5)) \<longleftrightarrow>
     (\<exists>repo_author project_repo volumes_list ce ros2_distro middleware tp dbi dfic archs tag t5.
        cfg_repo_author config = Some repo_author
        \<and> cfg_project_repo config = Some project_repo
        \<and> cfg_volumes config = Some volumes_list
        \<and> cfg_container_env config = Some ce
        \<and> cfg_ros2_distro config = Some ros2_distro
        \<and> cfg_middleware config = Some middleware
        \<and> cfg_target_platorm config = Some tp
        \<and> cfg_docker_base_images config = Some dbi
        \<and> cfg_docker_file_image_container config = Some dfic
        \<and> check_constraints config target_arch middleware ros2_distro = ([], Ok archs)
        \<and> is_dir h (path_join h (ROOT_DIR h) project_repo)
        \<and> e1 = [(''REPO_AUTHOR'', repo_author), (''PROJECT_REPO'', project_repo)]
        \<and> list_all (is_dir h) volumes_list
        \<and> e2 = [(''LOCAL_WS_PATH'', path_join h (ROOT_DIR h) project_repo),
                 (''VOLUMES'', bash_array_assignment volumes_list)]
        \<and> container_env config ce project_repo = ([], Ok e3)
        \<and> base_image_env h dbi middleware target_arch ros2_distro archs = ([], Ok (tag, e4))
        \<and> image_env h dfic middleware repo_author project_repo ros2_distro tag = (t5, Ok e5)
        \<and> t = IsDir (path_join h (ROOT_DIR h) project_repo) # map IsDir volumes_list @ t5)"
  (is "?L = ?R")
proof
  assume ?L
  then show ?R
    unfolding partial_envs_def
    by (simp add: cbind_Ok_iff check_constraints_Ok_iff repo_env_Ok_iff volumes_env_Ok_iff
          container_env_Ok_iff base_image_env_Ok_iff split_paired_Ex)
      blast
next
  assume ?R
  then obtain repo_author project_repo volumes_list ce ros2_distro middleware tp dbi dfic archs tag t5
    where f: "cfg_repo_author config = Some repo_author"
        "cfg_project_repo config = Some project_repo"
        "cfg_volumes config = Some volumes_list"
        "cfg_container_env config = Some ce"
        "cfg_ros2_distro config = Some ros2_distro"
        "cfg_middleware config = Some middleware"
        "cfg_target_platorm config = Some tp"
        "cfg_docker_base_images config = Some dbi"
        "cfg_docker_file_image_container config = Some dfic"
      and c: "check_constraints config target_arch middleware ros2_distro = ([], Ok archs)"
      and r: "is_dir h (path_join h (ROOT_DIR h) project_repo)"
        "e1 = [(''REPO_AUTHOR'', repo_author), (''PROJECT_REPO'', project_repo)]"
      and v: "list_all (is_dir h) volumes_list"
        "e2 = [(''LOCAL_WS_PATH'', path_join h (ROOT_DIR h) project_repo),
                 (''VOLUMES'', bash_array_assignment volumes_list)]"
      and ce: "container_env config ce project_repo = ([], Ok e3)"
      and b: "base_image_env h dbi middleware target_arch ros2_distro archs = ([], Ok (tag, e4))"
      and i: "image_env h dfic middleware repo_author project_repo ros2_distro tag = (t5, Ok e5)"
      and t: "t = IsDir (path_join h (ROOT_DIR h) project_repo) # map IsDir volumes_list @ t5"
    by blast
  have re: "repo_env h repo_author project_repo =
      ([IsDir (path_join h (ROOT_DIR h) project_repo)], Ok (path_join h (ROOT_DIR h) project_repo, e1))"
    using r by (simp add: repo_env_Ok_iff)
  have ve: "volumes_env h volumes_list (path_join h (ROOT_DIR h) project_repo) =
      (map IsDir volumes_list, Ok e2)"
    using v by (simp add: volumes_env_Ok_iff)
  show ?L
    unfolding partial_envs_def
    by (simp add: f c re ve ce b i t cbind_Ok ret_def)
qed

lemma dict_set_fresh: "k \<notin> set (keys d) \<Longrightarrow> dict_set d k v = d @ [(k, v)]"
  by (induction d) (auto simp: keys_def)

lemma dict_or_disjoint:
  "distinct (keys b) \<Longrightarrow> set (keys a) \<inter> set (keys b) = {} \<Longrightarrow> dict_or a b = a @ b"
proof (induction b arbitrary: a)
  case Nil
  show ?case by (simp add: dict_or_def)
next
  case (Cons kv b)
  obtain k v where kv: "kv = (k, v)" by (cases kv)
  from Cons.prems have fresh: "k \<notin> set (keys a)" and db: "distinct (keys b)"
    and disj: "set (keys (a @ [(k, v)])) \<inter> set (keys b) = {}"
    by (auto simp: kv keys_def)
  have "dict_or a (kv # b) = dict_or (dict_set a k v) b"
    by (simp add: dict_or_def kv)
  also have "\<dots> = dict_or (a @ [(k, v)]) b"
    using fresh by (simp add: dict_set_fresh)
  also have "\<dots> = (a @ [(k, v)]) @ b"
    using db disj by (rule Cons.IH)
  finally show ?case by (simp add: kv)
qed

lemma keys_append [simp]: "keys (a @ b) = keys a @ keys b"
  by (simp add: keys_def)

lemma dict_or_5:
  assumes "distinct (keys a @ keys b @ keys c @ keys d @ keys e)"
  shows "dict_or (dict_or (dict_or (dict_or a b) c) d) e = a @ b @ c @ d @ e"
proof -
  from assms have ab: "dict_or a b = a @ b"
    by (intro dict_or_disjoint) auto
  from assms have abc: "dict_or (a @ b) c = a @ b @ c"
    using dict_or_disjoint [of c "a @ b"] by auto
  from assms have abcd: "dict_or (a @ b @ c) d = a @ b @ c @ d"
    using dict_or_disjoint [of d "a @ b @ c"] by auto
  from assms have abcde: "dict_or (a @ b @ c @ d) e = a @ b @ c @ d @ e"
    using dict_or_disjoint [of e "a @ b @ c @ d"] by auto
  show ?thesis by (simp only: ab abc abcd abcde)
qed

lemma distinct_5_disjoint:
  assumes "distinct (a @ b @ c @ d @ e)"
  shows "set a \<inter> set b = {}" "set a \<inter> set c = {}" "set a \<inter> set d = {}" "set a \<inter> set e = {}"
    "set b \<inter> set c = {}" "set b \<inter> set d = {}" "set b \<inter> set e = {}"
    "set c \<inter> set d = {}" "set c \<inter> set e = {}" "set d \<inter> set e = {}"
  using assms by auto

lemma map_of_concat_stratum:
  "distinct (keys (concat xss)) \<Longrightarrow> s \<in> set xss \<Longrightarrow> k \<in> set (keys s)
     \<Longrightarrow> map_of (concat xss) k = map_of s k"
proof (induction xss)
  case Nil
  then show ?case by simp
next
  case (Cons x xss)
  show ?case
  proof (cases "k \<in> set (keys x)")
    case True
    then have kx: "k \<in> dom (map_of x)" by (simp add: keys_def dom_map_of_conv_image_fst)
    from Cons.prems True have "k \<notin> set (keys (concat xss))" by auto
    with Cons.prems True have "s = x"
      by (auto simp: keys_def)
    with kx show ?thesis by (auto simp: map_add_dom_app_simps)
  next
    case False
    then have "k \<notin> dom (map_of x)" by (simp add: keys_def dom_map_of_conv_image_fst)
    moreover from False Cons.prems have "s \<in> set xss" by auto
    ultimately show ?thesis
      using Cons.IH Cons.prems by (auto simp: map_add_dom_app_simps)
  qed
qed

lemma partial_envs_keys:
  assumes "partial_envs h config target_arch = (t, Ok (e1, e2, e3, e4, e5))"
  shows "keys e1 = [''REPO_AUTHOR'', ''PROJECT_REPO'']"
    and "keys e2 = [''LOCAL_WS_PATH'', ''VOLUMES'']"
    and "keys e3 = [''CONTAINER_USR'', ''CONTAINER_PSW'', ''CONTAINER_UID'', ''CONTAINER_GID'',
                    ''CONTAINER_HOME'', ''CONTAINER_WS'', ''CONTAINER_RUN_CMD'']"
    and "keys e4 = [''BASE_IMAGE'', ''BUILD_STAGE'', ''TARGET_ARCH'', ''SOURCE_ARCH'']"
    and "keys e5 = [''DOCKERFILE'', ''DOCKER_IMAGE'', ''DOCKER_CONTAINER'', ''DOCKER_IMAGE_TAG'']"
  using assms
  by (auto simp: partial_envs_Ok_iff container_env_Ok_iff base_image_env_Ok_iff image_env_Ok_iff
        keys_def)

lemma partial_envs_distinct:
  assumes "partial_envs h config target_arch = (t, Ok (e1, e2, e3, e4, e5))"
  shows "distinct (keys e1 @ keys e2 @ keys e3 @ keys e4 @ keys e5)"
  unfolding partial_envs_keys [OF assms] by simp

lemma generate_config_Ok_iff:
  "generate_config h config target_arch = (t, Ok env) \<longleftrightarrow>
     (\<exists>e1 e2 e3 e4 e5. partial_envs h config target_arch = (t, Ok (e1, e2, e3, e4, e5))
        \<and> env = e1 @ e2 @ e3 @ e4 @ e5)"
proof -
  have "generate_config h config target_arch = (t, Ok env) \<longleftrightarrow>
     (\<exists>e1 e2 e3 e4 e5. partial_envs h config target_arch = (t, Ok (e1, e2, e3, e4, e5))
        \<and> env = dict_or (dict_or (dict_or (dict_or e1 e2) e3) e4) e5)"
    unfolding generate_config_def by (simp add: cbind_Ok_iff split_paired_Ex) blast
  then show ?thesis
    by (metis dict_or_5 partial_envs_distinct)
qed

lemma generate_config_env:
  assumes "generate_config h config target_arch = (t, Ok env)"
  obtains repo_author project_repo volumes_list ce ros2_distro middleware tp dbi dfic archs
    base_image build_stage tag arch usr psw uid gid run_cmd df di dc
  where "cfg_repo_author config = Some repo_author"
    and "cfg_project_repo config = Some project_repo"
    and "cfg_volumes config = Some volumes_list"
    and "cfg_container_env config = Some ce"
    and "cfg_ros2_distro config = Some ros2_distro"
    and "cfg_middleware config = Some middleware"
    and "cfg_target_platorm config = Some tp"
    and "cfg_docker_base_images config = Some dbi"
    and "cfg_docker_file_image_container config = Some dfic"
    and "check_constraints config target_arch middleware ros2_distro = ([], Ok archs)"
    and "choose_base_image dbi middleware target_arch archs = ([], Ok (base_image, build_stage, tag, arch))"
    and "ce ''container_usr'' = Some usr" and "ce ''container_psw'' = Some psw"
    and "ce ''container_uid'' = Some uid" and "ce ''container_gid'' = Some gid"
    and "cfg_container_run_cmd config = Some run_cmd"
    and "dfic ''dockerfile'' = Some df" and "dfic ''docker_image'' = Some di"
    and "dfic ''docker_container'' = Some dc"
    and "env =
      [(''REPO_AUTHOR'', repo_author), (''PROJECT_REPO'', project_repo),
       (''LOCAL_WS_PATH'', path_join h (ROOT_DIR h) project_repo),
       (''VOLUMES'', bash_array_assignment volumes_list),
       (''CONTAINER_USR'', usr), (''CONTAINER_PSW'', psw), (''CONTAINER_UID'', uid),
       (''CONTAINER_GID'', gid), (''CONTAINER_HOME'', ''/home/'' @ usr),
       (''CONTAINER_WS'', (''/home/'' @ usr) @ ''/'' @ project_repo),
       (''CONTAINER_RUN_CMD'', run_cmd),
       (''BASE_IMAGE'', replace base_image ''ROS2_DISTRO'' ros2_distro),
       (''BUILD_STAGE'', build_stage), (''TARGET_ARCH'', arch),
       (''SOURCE_ARCH'', platform_machine h),
       (''DOCKERFILE'', replace df ''MIDDLEWARE'' middleware),
       (''DOCKER_IMAGE'',
        replace (replace (replace di ''REPO_AUTHOR'' repo_author)
                   ''PROJECT_REPO'' project_repo) ''ROS2_DISTRO'' ros2_distro),
       (''DOCKER_CONTAINER'', replace (replace dc ''PROJECT_REPO'' project_repo) ''TAG'' tag),
       (''DOCKER_IMAGE_TAG'', tag)]"
proof -
  from assms obtain e1 e2 e3 e4 e5
    where pe: "partial_envs h config target_arch = (t, Ok (e1, e2, e3, e4, e5))"
      and env: "env = e1 @ e2 @ e3 @ e4 @ e5"
    unfolding generate_config_Ok_iff by blast
  from pe obtain repo_author project_repo volumes_list ce ros2_distro middleware tp dbi dfic archs tag t5
    where f: "cfg_repo_author config = Some repo_author"
        "cfg_project_repo config = Some project_repo"
        "cfg_volumes config = Some volumes_list"
        "cfg_container_env config = Some ce"
        "cfg_ros2_distro config = Some ros2_distro"
        "cfg_middleware config = Some middleware"
        "cfg_target_platorm config = Some tp"
        "cfg_docker_base_images config = Some dbi"
        "cfg_docker_file_image_container config = Some dfic"
      and c: "check_constraints config target_arch middleware ros2_distro = ([], Ok archs)"
      and e1: "e1 = [(''REPO_AUTHOR'', repo_author), (''PROJECT_REPO'', project_repo)]"
      and e2: "e2 = [(''LOCAL_WS_PATH'', path_join h (ROOT_DIR h) project_repo),
                 (''VOLUMES'', bash_array_assignment volumes_list)]"
      and ce: "container_env config ce project_repo = ([], Ok e3)"
      and b: "base_image_env h dbi middleware target_arch ros2_distro archs = ([], Ok (tag, e4))"
      and i: "image_env h dfic middleware repo_author project_repo ros2_distro tag = (t5, Ok e5)"
    unfolding partial_envs_Ok_iff by blast
  from ce obtain usr psw uid gid run_cmd
    where u: "ce ''container_usr'' = Some usr" "ce ''container_psw'' = Some psw"
        "ce ''container_uid'' = Some uid" "ce ''container_gid'' = Some gid"
        "cfg_container_run_cmd config = Some run_cmd"
      and e3: "e3 = [(''CONTAINER_USR'', usr), (''CONTAINER_PSW'', psw), (''CONTAINER_UID'', uid),
               (''CONTAINER_GID'', gid), (''CONTAINER_HOME'', ''/home/'' @ usr),
               (''CONTAINER_WS'', (''/home/'' @ usr) @ ''/'' @ project_repo),
               (''CONTAINER_RUN_CMD'', run_cmd)]"
    unfolding container_env_Ok_iff by blast
  from b obtain base_image build_stage arch
    where cb: "choose_base_image dbi middleware target_arch archs = ([], Ok (base_image, build_stage, tag, arch))"
      and e4: "e4 = [(''BASE_IMAGE'', replace base_image ''ROS2_DISTRO'' ros2_distro),
                     (''BUILD_STAGE'', build_stage), (''TARGET_ARCH'', arch),
                     (''SOURCE_ARCH'', platform_machine h)]"
    unfolding base_image_env_Ok_iff by auto
  from i obtain df di dc
    where d: "dfic ''dockerfile'' = Some df" "dfic ''docker_image'' = Some di"
        "dfic ''docker_container'' = Some dc"
      and e5: "e5 = [(''DOCKERFILE'', replace df ''MIDDLEWARE'' middleware),
               (''DOCKER_IMAGE'',
                replace (replace (replace di ''REPO_AUTHOR'' repo_author)
                           ''PROJECT_REPO'' project_repo) ''ROS2_DISTRO'' ros2_distro),
               (''DOCKER_CONTAINER'',
                replace (replace dc ''PROJECT_REPO'' project_repo) ''TAG'' tag),
               (''DOCKER_IMAGE_TAG'', tag)]"
    unfolding image_env_Ok_iff by blast
  show thesis
    by (rule that [OF f c cb u d]) (simp add: env e1 e2 e3 e4 e5)
qed

section \<open>Evaluation on the example\<close>

lemma generate_config_example_develop:
  "generate_config host_example config_example ''develop'' = (example_trace, Ok env_example_develop)"
  by code_simp


section \<open>Resolution for \<open>ros2\<close>\<close>



section \<open>The final merge\<close>

lemma partial_envs_example_develop:
  "partial_envs host_example config_example ''develop'' =
     (example_trace,
      Ok (take 2 env_example_develop, take 2 (drop 2 env_example_develop),
          take 7 (drop 4 env_example_develop), take 4 (drop 11 env_example_develop),
          drop 15 env_example_develop))"
  by code_simp

text \<open>
  C6.  Whenever the five partial mappings (repo identity, volumes, container identity, build
  identity, image identity) are produced, their key sets are pairwise disjoint; the
  resolved environment is their merge in this order, and every key of every stratum
  carries in the merge the value that this stratum gave it: no later stratum overwrites
  a key bound by an earlier one.
\<close>

theorem merge_strata_disjoint:
  assumes "partial_envs h config target_arch =
             (t, Ok (repo_env1, volumes_env1, container_env1, base_image_env1, image_env1))"
  shows "set (keys repo_env1) \<inter> set (keys volumes_env1) = {}
       \<and> set (keys repo_env1) \<inter> set (keys container_env1) = {}
       \<and> set (keys repo_env1) \<inter> set (keys base_image_env1) = {}
       \<and> set (keys repo_env1) \<inter> set (keys image_env1) = {}
       \<and> set (keys volumes_env1) \<inter> set (keys container_env1) = {}
       \<and> set (keys volumes_env1) \<inter> set (keys base_image_env1) = {}
       \<and> set (keys volumes_env1) \<inter> set (keys image_env1) = {}
       \<and> set (keys container_env1) \<inter> set (keys base_image_env1) = {}
       \<and> set (keys container_env1) \<inter> set (keys image_env1) = {}
       \<and> set (keys base_image_env1) \<inter> set (keys image_env1) = {}
       \<and> generate_config h config target_arch =
             (t, Ok (dict_or (dict_or (dict_or (dict_or repo_env1 volumes_env1) container_env1)
                        base_image_env1) image_env1))
       \<and> (\<forall>stratum \<in> set [repo_env1, volumes_env1, container_env1, base_image_env1, image_env1].
            \<forall>k \<in> set (keys stratum).
              map_of (dict_or (dict_or (dict_or (dict_or repo_env1 volumes_env1) container_env1)
                         base_image_env1) image_env1) k = map_of stratum k)"
proof -
  let ?merged = "dict_or (dict_or (dict_or (dict_or repo_env1 volumes_env1) container_env1)
                   base_image_env1) image_env1"
  have d: "distinct (keys repo_env1 @ keys volumes_env1 @ keys container_env1
             @ keys base_image_env1 @ keys image_env1)"
    using assms by (rule partial_envs_distinct)
  have m: "?merged = concat [repo_env1, volumes_env1, container_env1, base_image_env1, image_env1]"
    using dict_or_5 [OF d] by simp
  have g: "generate_config h config target_arch = (t, Ok ?merged)"
    unfolding generate_config_def assms by (simp add: cbind_Ok ret_def)
  have dc: "distinct (keys (concat [repo_env1, volumes_env1, container_env1, base_image_env1, image_env1]))"
    using d by simp
  have l: "\<forall>stratum \<in> set [repo_env1, volumes_env1, container_env1, base_image_env1, image_env1].
            \<forall>k \<in> set (keys stratum). map_of ?merged k = map_of stratum k"
    unfolding m using map_of_concat_stratum [OF dc] by blast
  from distinct_5_disjoint [OF d] g l show ?thesis by blast
qed

theorem merge_strata_disjoint_witness:
  "partial_envs host_example config_example ''develop'' =
     (example_trace,
      Ok (take 2 env_example_develop, take 2 (drop 2 env_example_develop),
          take 7 (drop 4 env_example_develop), take 4 (drop 11 env_example_develop),
          drop 15 env_example_develop))
   \<and> set (keys (take 2 env_example_develop)) \<inter> set (keys (drop 15 env_example_develop)) = {}
   \<and> generate_config host_example config_example ''develop'' =
        (example_trace,
         Ok (dict_or (dict_or (dict_or (dict_or (take 2 env_example_develop)
               (take 2 (drop 2 env_example_develop))) (take 7 (drop 4 env_example_develop)))
               (take 4 (drop 11 env_example_develop))) (drop 15 env_example_develop)))"
  using merge_strata_disjoint [OF partial_envs_example_develop] partial_envs_example_develop
  by blast

section \<open>The key \<open>target_platorm\<close>\<close>

lemma cbind_nil_Ok [simp]: "cbind ([], Ok x) f = f x"
  by (simp add: cbind_Ok)

lemma supported_list_target_platorm [simp]:
  "supported_list (config\<lparr>cfg_target_platorm := x\<rparr>) k = supported_list config k"
  by (simp add: supported_list_def)

lemma check_constraints_target_platorm [simp]:
  "check_constraints (config\<lparr>cfg_target_platorm := x\<rparr>) = check_constraints config"
  by (simp add: check_constraints_def fun_eq_iff cong: if_cong)

lemma container_env_target_platorm [simp]:
  "container_env (config\<lparr>cfg_target_platorm := x\<rparr>) = container_env config"
  by (simp add: container_env_def fun_eq_iff)

lemma partial_envs_target_platorm_unused:
  "partial_envs h (config\<lparr>cfg_target_platorm := Some v\<rparr>) target_arch =
   partial_envs h (config\<lparr>cfg_target_platorm := Some v'\<rparr>) target_arch"
  by (simp add: partial_envs_def cong: if_cong)

text \<open>
  C10.  When the configuration lacks the key \<open>target_platorm\<close>, resolution raises KeyError
  before any validation check runs (nothing is printed and no path is probed): the error
  names the first absent key among the seven read so far, hence \<open>target_platorm\<close> itself
  when the six keys read before it are present.  The value of the key, when present, is
  never used: the run is the same for any two values.
\<close>

theorem missing_target_platorm_raises:
  assumes "cfg_target_platorm config = None"
  shows "(\<exists>k \<in> set [''repo_author'', ''project_repo'', ''volumes'', ''container_env'',
                     ''ros2_distro'', ''middleware'', ''target_platorm''].
            generate_config h config target_arch = ([], Raised (KeyError k)))
       \<and> (cfg_repo_author config \<noteq> None \<and> cfg_project_repo config \<noteq> None
            \<and> cfg_volumes config \<noteq> None \<and> cfg_container_env config \<noteq> None
            \<and> cfg_ros2_distro config \<noteq> None \<and> cfg_middleware config \<noteq> None
          \<longrightarrow> generate_config h config target_arch = ([], Raised (KeyError ''target_platorm'')))
       \<and> generate_config h (config\<lparr>cfg_target_platorm := Some v\<rparr>) target_arch =
           generate_config h (config\<lparr>cfg_target_platorm := Some v'\<rparr>) target_arch"
proof -
  have g: "generate_config h config target_arch =
      (case cfg_repo_author config of None \<Rightarrow> ([], Raised (KeyError ''repo_author'')) | Some _ \<Rightarrow>
       case cfg_project_repo config of None \<Rightarrow> ([], Raised (KeyError ''project_repo'')) | Some _ \<Rightarrow>
       case cfg_volumes config of None \<Rightarrow> ([], Raised (KeyError ''volumes'')) | Some _ \<Rightarrow>
       case cfg_container_env config of None \<Rightarrow> ([], Raised (KeyError ''container_env'')) | Some _ \<Rightarrow>
       case cfg_ros2_distro config of None \<Rightarrow> ([], Raised (KeyError ''ros2_distro'')) | Some _ \<Rightarrow>
       case cfg_middleware config of None \<Rightarrow> ([], Raised (KeyError ''middleware'')) | Some _ \<Rightarrow>
       ([], Raised (KeyError ''target_platorm'')))"
    using assms
    by (simp add: generate_config_def partial_envs_def split: option.split)
  have first: "\<exists>k \<in> set [''repo_author'', ''project_repo'', ''volumes'', ''container_env'',
                     ''ros2_distro'', ''middleware'', ''target_platorm''].
            generate_config h config target_arch = ([], Raised (KeyError k))"
    unfolding g by (simp split: option.split)
  have second: "cfg_repo_author config \<noteq> None \<and> cfg_project_repo config \<noteq> None
            \<and> cfg_volumes config \<noteq> None \<and> cfg_container_env config \<noteq> None
            \<and> cfg_ros2_distro config \<noteq> None \<and> cfg_middleware config \<noteq> None
          \<longrightarrow> generate_config h config target_arch = ([], Raised (KeyError ''target_platorm''))"
    unfolding g by (simp split: option.split)
  have third: "generate_config h (config\<lparr>cfg_target_platorm := Some v\<rparr>) target_arch =
           generate_config h (config\<lparr>cfg_target_platorm := Some v'\<rparr>) target_arch"
    unfolding generate_config_def
    by (simp only: partial_envs_target_platorm_unused [where v = v and v' = v'])
  from first second third show ?thesis by blast
qed

theorem missing_target_platorm_raises_witness:
  "cfg_target_platorm (config_example\<lparr>cfg_target_platorm := None\<rparr>) = None
   \<and> generate_config host_example (config_example\<lparr>cfg_target_platorm := None\<rparr>) ''develop'' =
       ([], Raised (KeyError ''target_platorm''))"
proof -
  have n: "cfg_target_platorm (config_example\<lparr>cfg_target_platorm := None\<rparr>) = None"
    by simp
  from missing_target_platorm_raises [OF n, of host_example "''develop''"] show ?thesis
    by (simp add: config_example_def)
qed

section \<open>The order of the validation checks\<close>

lemma check_volumes_fail:
  "\<not> list_all (is_dir h) vs \<Longrightarrow>
     check_volumes h vs =
       (map IsDir (takeWhile (is_dir h) vs)
          @ [IsDir (hd (dropWhile (is_dir h) vs)),
             Print (missing_directory (hd (dropWhile (is_dir h) vs)))], Failed)"
  by (induction vs) (simp_all add: check_volumes_Cons)

lemma check_volumes_pass:
  "list_all (is_dir h) vs \<Longrightarrow> check_volumes h vs = (map IsDir vs, Ok ())"
  using check_volumes_Ok_iff [of h vs "map IsDir vs" "()"] by simp

lemma partial_envs_fields:
  assumes "cfg_repo_author config = Some repo_author"
    and "cfg_project_repo config = Some project_repo"
    and "cfg_volumes config = Some volumes_list"
    and "cfg_container_env config = Some ce"
    and "cfg_ros2_distro config = Some ros2_distro"
    and "cfg_middleware config = Some middleware"
    and "cfg_target_platorm config = Some tp"
    and "cfg_docker_base_images config = Some dbi"
    and "cfg_docker_file_image_container config = Some dfic"
  shows "partial_envs h config target_arch =
     cbind (check_constraints config target_arch middleware ros2_distro)
       (\<lambda>supported_architectures.
     cbind (repo_env h repo_author project_repo) (\<lambda>(local_project_repo_path, repo_env1).
     cbind (volumes_env h volumes_list local_project_repo_path) (\<lambda>volumes_env1.
     cbind (container_env config ce project_repo) (\<lambda>container_env1.
     cbind (base_image_env h dbi middleware target_arch ros2_distro
              supported_architectures) (\<lambda>(tag, base_image_env1).
     cbind (image_env h dfic middleware repo_author project_repo
              ros2_distro tag) (\<lambda>image_env1.
     ret (repo_env1, volumes_env1, container_env1, base_image_env1, image_env1)))))))"
  by (simp add: partial_envs_def assms)

lemma generate_config_Failed:
  "partial_envs h config target_arch = (t, Failed) \<Longrightarrow>
     generate_config h config target_arch = (t, Failed)"
  by (simp add: generate_config_def)

lemma check_constraints_arch:
  assumes "cfg_supported config = Some s" "s ''architectures'' = Some archs"
    and "target_arch \<notin> set archs"
  shows "check_constraints config target_arch middleware ros2_distro =
           ([Print (unsupported_architecture target_arch archs)], Failed)"
  using assms by (simp add: check_constraints_def supported_list_def getitem_def print_and_return_def)

lemma check_constraints_middleware:
  assumes "cfg_supported config = Some s" "s ''architectures'' = Some archs"
    and "target_arch \<in> set archs"
    and "s ''middlewares'' = Some mws" "middleware \<notin> set mws"
  shows "check_constraints config target_arch middleware ros2_distro =
           ([Print (unsupported_middleware middleware mws)], Failed)"
  using assms by (simp add: check_constraints_def supported_list_def getitem_def print_and_return_def)

lemma check_constraints_distro:
  assumes "cfg_supported config = Some s" "s ''architectures'' = Some archs"
    and "target_arch \<in> set archs"
    and "s ''middlewares'' = Some mws" "middleware \<in> set mws"
    and "s ''ros2_distros'' = Some ds" "ros2_distro \<notin> set ds"
  shows "check_constraints config target_arch middleware ros2_distro =
           ([Print (unsupported_distribution ros2_distro ds)], Failed)"
  using assms by (simp add: check_constraints_def supported_list_def getitem_def print_and_return_def)

lemma check_constraints_pass:
  assumes "cfg_supported config = Some s" "s ''architectures'' = Some archs"
    and "target_arch \<in> set archs"
    and "s ''middlewares'' = Some mws" "middleware \<in> set mws"
    and "s ''ros2_distros'' = Some ds" "ros2_distro \<in> set ds"
  shows "check_constraints config target_arch middleware ros2_distro = ([], Ok archs)"
  using assms by (simp add: check_constraints_Ok_iff)

lemma repo_env_fail:
  "\<not> is_dir h (path_join h (ROOT_DIR h) project_repo) \<Longrightarrow>
     repo_env h repo_author project_repo =
       ([IsDir (path_join h (ROOT_DIR h) project_repo),
         Print (missing_directory (path_join h (ROOT_DIR h) project_repo))], Failed)"
  by (simp add: repo_env_def Let_def probe_is_dir_def cbind_Ok print_and_return_def)

lemma repo_env_pass:
  "is_dir h (path_join h (ROOT_DIR h) project_repo) \<Longrightarrow>
     repo_env h repo_author project_repo =
       ([IsDir (path_join h (ROOT_DIR h) project_repo)],
        Ok (path_join h (ROOT_DIR h) project_repo,
            [(''REPO_AUTHOR'', repo_author), (''PROJECT_REPO'', project_repo)]))"
  by (simp add: repo_env_Ok_iff)

lemma volumes_env_fail:
  "\<not> list_all (is_dir h) vs \<Longrightarrow>
     volumes_env h vs p =
       (map IsDir (takeWhile (is_dir h) vs)
          @ [IsDir (hd (dropWhile (is_dir h) vs)),
             Print (missing_directory (hd (dropWhile (is_dir h) vs)))], Failed)"
  by (simp add: volumes_env_def check_volumes_fail)

text \<open>
  C4, as stated: all four checks run on every invocation.  On a configuration whose
  middleware and distribution are unsupported and whose repository path does not exist,
  with an unsupported target, the run prints the architecture diagnostic and returns:
  its trace holds no other diagnostic and no query of the file system, so the three
  later checks did not run.
\<close>

theorem eager_validation_counterexample:
  "generate_config host_example config_unsupported ''riscv64'' =
     ([Print ''Unsupported architecture: riscv64, Supported architectures: develop, deploy, aarch64''],
      Failed)
   \<and> cfg_middleware config_unsupported = Some ''zenoh''
   \<and> cfg_ros2_distro config_unsupported = Some ''foxy''
   \<and> \<not> is_dir host_example (path_join host_example (ROOT_DIR host_example) ''missing'')"
  by code_simp

text \<open>
  C4, amended.  The checks run in a fixed order (supported architecture, supported
  middleware, supported distribution, repository path, then the extra volume paths in
  list order) and the run stops at the first check that fails: it prints the diagnostic
  of that check and nothing else, and queries the file system only for the paths up to
  and including the first missing one.  A check after the failing one is not run, not
  even its lookup in the \<open>supported\<close> block.  The run is a function of the configuration,
  the target and the file system, so repeating it gives the same failure.
\<close>

theorem validation_short_circuits:
  assumes "cfg_repo_author config = Some repo_author"
    and "cfg_project_repo config = Some project_repo"
    and "cfg_volumes config = Some volumes_list"
    and "cfg_container_env config = Some ce"
    and "cfg_ros2_distro config = Some ros2_distro"
    and "cfg_middleware config = Some middleware"
    and "cfg_target_platorm config = Some tp"
    and "cfg_docker_base_images config = Some dbi"
    and "cfg_docker_file_image_container config = Some dfic"
    and "cfg_supported config = Some s"
    and "s ''architectures'' = Some archs"
  shows "(target_arch \<notin> set archs \<longrightarrow>
            generate_config h config target_arch =
              ([Print (unsupported_architecture target_arch archs)], Failed))
       \<and> (target_arch \<in> set archs \<and> s ''middlewares'' = Some mws \<and> middleware \<notin> set mws \<longrightarrow>
            generate_config h config target_arch =
              ([Print (unsupported_middleware middleware mws)], Failed))
       \<and> (target_arch \<in> set archs \<and> s ''middlewares'' = Some mws \<and> middleware \<in> set mws
            \<and> s ''ros2_distros'' = Some ds \<and> ros2_distro \<notin> set ds \<longrightarrow>
            generate_config h config target_arch =
              ([Print (unsupported_distribution ros2_distro ds)], Failed))
       \<and> (target_arch \<in> set archs \<and> s ''middlewares'' = Some mws \<and> middleware \<in> set mws
            \<and> s ''ros2_distros'' = Some ds \<and> ros2_distro \<in> set ds
            \<and> \<not> is_dir h (path_join h (ROOT_DIR h) project_repo) \<longrightarrow>
            generate_config h config target_arch =
              ([IsDir (path_join h (ROOT_DIR h) project_repo),
                Print (missing_directory (path_join h (ROOT_DIR h) project_repo))], Failed))
       \<and> (target_arch \<in> set archs \<and> s ''middlewares'' = Some mws \<and> middleware \<in> set mws
            \<and> s ''ros2_distros'' = Some ds \<and> ros2_distro \<in> set ds
            \<and> is_dir h (path_join h (ROOT_DIR h) project_repo)
            \<and> \<not> list_all (is_dir h) volumes_list \<longrightarrow>
            generate_config h config target_arch =
              (IsDir (path_join h (ROOT_DIR h) project_repo)
                 # map IsDir (takeWhile (is_dir h) volumes_list)
                 @ [IsDir (hd (dropWhile (is_dir h) volumes_list)),
                    Print (missing_directory (hd (dropWhile (is_dir h) volumes_list)))],
               Failed))"
proof -
  note pe = partial_envs_fields [OF assms(1-9)]
  note s = assms(10,11)
  have a: "generate_config h config target_arch =
              ([Print (unsupported_architecture target_arch archs)], Failed)"
    if "target_arch \<notin> set archs"
    by (rule generate_config_Failed) (simp add: pe check_constraints_arch [OF s that])
  have b: "generate_config h config target_arch =
              ([Print (unsupported_middleware middleware mws)], Failed)"
    if "target_arch \<in> set archs" "s ''middlewares'' = Some mws" "middleware \<notin> set mws"
    by (rule generate_config_Failed) (simp add: pe check_constraints_middleware [OF s that])
  have c: "generate_config h config target_arch =
              ([Print (unsupported_distribution ros2_distro ds)], Failed)"
    if "target_arch \<in> set archs" "s ''middlewares'' = Some mws" "middleware \<in> set mws"
      "s ''ros2_distros'' = Some ds" "ros2_distro \<notin> set ds"
    by (rule generate_config_Failed) (simp add: pe check_constraints_distro [OF s that])
  have d: "generate_config h config target_arch =
              ([IsDir (path_join h (ROOT_DIR h) project_repo),
                Print (missing_directory (path_join h (ROOT_DIR h) project_repo))], Failed)"
    if "target_arch \<in> set archs" "s ''middlewares'' = Some mws" "middleware \<in> set mws"
      "s ''ros2_distros'' = Some ds" "ros2_distro \<in> set ds"
      "\<not> is_dir h (path_join h (ROOT_DIR h) project_repo)"
    by (rule generate_config_Failed)
       (simp add: pe check_constraints_pass [OF s that(1-5)] repo_env_fail [OF that(6)])
  have e: "generate_config h config target_arch =
              (IsDir (path_join h (ROOT_DIR h) project_repo)
                 # map IsDir (takeWhile (is_dir h) volumes_list)
                 @ [IsDir (hd (dropWhile (is_dir h) volumes_list)),
                    Print (missing_directory (hd (dropWhile (is_dir h) volumes_list)))],
               Failed)"
    if "target_arch \<in> set archs" "s ''middlewares'' = Some mws" "middleware \<in> set mws"
      "s ''ros2_distros'' = Some ds" "ros2_distro \<in> set ds"
      "is_dir h (path_join h (ROOT_DIR h) project_repo)"
      "\<not> list_all (is_dir h) volumes_list"
    by (rule generate_config_Failed)
       (simp add: pe check_constraints_pass [OF s that(1-5)] repo_env_pass [OF that(6)]
          volumes_env_fail [OF that(7)] cbind_Ok)
  from a b c d e show ?thesis by blast
qed

theorem validation_short_circuits_witness:
  "''riscv64'' \<notin> set [''develop'', ''deploy'', ''aarch64'']
   \<and> generate_config host_example config_unsupported ''riscv64'' =
       ([Print (unsupported_architecture ''riscv64'' [''develop'', ''deploy'', ''aarch64''])], Failed)
   \<and> \<not> is_dir host_example (path_join host_example (ROOT_DIR host_example) ''missing'')
   \<and> generate_config host_example (config_example\<lparr>cfg_project_repo := Some ''missing''\<rparr>) ''develop'' =
       ([IsDir ''/ws/missing'', Print (missing_directory ''/ws/missing'')], Failed)"
proof -
  let ?s = "[''architectures'' \<mapsto> [''develop'', ''deploy'', ''aarch64''],
             ''middlewares'' \<mapsto> [''ros2'', ''micro-ros''],
             ''ros2_distros'' \<mapsto> [''humble'']]"
  have n: "''riscv64'' \<notin> set [''develop'', ''deploy'', ''aarch64'']" by simp
  have m: "\<not> is_dir host_example (path_join host_example (ROOT_DIR host_example) ''missing'')"
    "path_join host_example (ROOT_DIR host_example) ''missing'' = ''/ws/missing''"
    by (simp_all add: host_example_def)
  have a: "generate_config host_example config_unsupported ''riscv64'' =
       ([Print (unsupported_architecture ''riscv64'' [''develop'', ''deploy'', ''aarch64''])], Failed)"
    using n
      validation_short_circuits [where config = config_unsupported and s = ?s
        and archs = "[''develop'', ''deploy'', ''aarch64'']" and target_arch = "''riscv64''"
        and h = host_example]
    by (simp add: config_unsupported_def config_example_def)
  have d: "generate_config host_example (config_example\<lparr>cfg_project_repo := Some ''missing''\<rparr>) ''develop'' =
       ([IsDir ''/ws/missing'', Print (missing_directory ''/ws/missing'')], Failed)"
    using m
      validation_short_circuits [where config = "config_example\<lparr>cfg_project_repo := Some ''missing''\<rparr>"
        and s = ?s and archs = "[''develop'', ''deploy'', ''aarch64'']"
        and target_arch = "''develop''" and mws = "[''ros2'', ''micro-ros'']"
        and ds = "[''humble'']" and h = host_example]
    by (simp add: config_example_def)
  from n m a d show ?thesis by simp
qed

section \<open>Resolution for \<open>micro-ros\<close>\<close>

lemma volumes_env_pass:
  "list_all (is_dir h) vs \<Longrightarrow>
     volumes_env h vs p =
       (map IsDir vs, Ok [(''LOCAL_WS_PATH'', p), (''VOLUMES'', bash_array_assignment vs)])"
  by (simp add: volumes_env_Ok_iff)

lemma container_env_pass:
  assumes "ce ''container_usr'' = Some usr" "ce ''container_psw'' = Some psw"
    and "ce ''container_uid'' = Some uid" "ce ''container_gid'' = Some gid"
    and "cfg_container_run_cmd config = Some run_cmd"
  shows "container_env config ce project_repo =
     ([], Ok [(''CONTAINER_USR'', usr), (''CONTAINER_PSW'', psw), (''CONTAINER_UID'', uid),
              (''CONTAINER_GID'', gid), (''CONTAINER_HOME'', ''/home/'' @ usr),
              (''CONTAINER_WS'', (''/home/'' @ usr) @ ''/'' @ project_repo),
              (''CONTAINER_RUN_CMD'', run_cmd)])"
  using assms by (simp add: container_env_Ok_iff)

lemma base_image_env_micro_ros_fail:
  assumes "dbi ''microros_base_image'' = Some b"
    and "target_arch \<noteq> ''develop''" "target_arch \<noteq> ''deploy''"
  shows "base_image_env h dbi ''micro-ros'' target_arch ros2_distro archs =
           ([Print (unsupported_architecture target_arch archs)], Failed)"
  using assms
  by (simp add: base_image_env_def choose_base_image_def getitem_def print_and_return_def)

text \<open>
  C7.  For middleware \<open>micro-ros\<close> and a target other than the aliases \<open>develop\<close> and
  \<open>deploy\<close> (the concrete token \<open>aarch64\<close> included), resolution never produces an
  environment; and on a configuration that is complete and passes the other checks, it
  ends by printing the unsupported-architecture diagnostic for that target and returns
  nothing, whether the target was rejected by the supported set or by the
  \<open>micro-ros\<close> branch.
\<close>

theorem micro_ros_only_aliases:
  assumes "cfg_middleware config = Some ''micro-ros''"
    and "target_arch \<noteq> ''develop''" and "target_arch \<noteq> ''deploy''"
  shows "(\<forall>env. snd (generate_config h config target_arch) \<noteq> Ok env)
       \<and> (cfg_repo_author config = Some repo_author
            \<and> cfg_project_repo config = Some project_repo
            \<and> cfg_volumes config = Some volumes_list
            \<and> cfg_container_env config = Some ce
            \<and> cfg_ros2_distro config = Some ros2_distro
            \<and> cfg_target_platorm config = Some tp
            \<and> cfg_docker_base_images config = Some dbi
            \<and> cfg_docker_file_image_container config = Some dfic
            \<and> cfg_supported config = Some s
            \<and> s ''architectures'' = Some archs
            \<and> s ''middlewares'' = Some mws \<and> ''micro-ros'' \<in> set mws
            \<and> s ''ros2_distros'' = Some ds \<and> ros2_distro \<in> set ds
            \<and> is_dir h (path_join h (ROOT_DIR h) project_repo)
            \<and> list_all (is_dir h) volumes_list
            \<and> ce ''container_usr'' = Some usr \<and> ce ''container_psw'' = Some psw
            \<and> ce ''container_uid'' = Some uid \<and> ce ''container_gid'' = Some gid
            \<and> cfg_container_run_cmd config = Some run_cmd
            \<and> dbi ''microros_base_image'' = Some b
          \<longrightarrow> generate_config h config target_arch =
                ((if target_arch \<in> set archs
                 then IsDir (path_join h (ROOT_DIR h) project_repo) # map IsDir volumes_list
                 else [])
                @ [Print (unsupported_architecture target_arch archs)], Failed))"
proof (intro conjI allI impI)
  fix env
  show "snd (generate_config h config target_arch) \<noteq> Ok env"
  proof
    assume "snd (generate_config h config target_arch) = Ok env"
    then have "generate_config h config target_arch = (fst (generate_config h config target_arch), Ok env)"
      by (simp add: prod_eq_iff)
    then obtain middleware dbi archs base_image build_stage tag arch
      where "cfg_middleware config = Some middleware"
        and "choose_base_image dbi middleware target_arch archs =
               ([], Ok (base_image, build_stage, tag, arch))"
      by (rule generate_config_env)
    with assms show False
      by (simp add: choose_base_image_Ok_iff)
  qed
next
  assume v: "cfg_repo_author config = Some repo_author
            \<and> cfg_project_repo config = Some project_repo
            \<and> cfg_volumes config = Some volumes_list
            \<and> cfg_container_env config = Some ce
            \<and> cfg_ros2_distro config = Some ros2_distro
            \<and> cfg_target_platorm config = Some tp
            \<and> cfg_docker_base_images config = Some dbi
            \<and> cfg_docker_file_image_container config = Some dfic
            \<and> cfg_supported config = Some s
            \<and> s ''architectures'' = Some archs
            \<and> s ''middlewares'' = Some mws \<and> ''micro-ros'' \<in> set mws
            \<and> s ''ros2_distros'' = Some ds \<and> ros2_distro \<in> set ds
            \<and> is_dir h (path_join h (ROOT_DIR h) project_repo)
            \<and> list_all (is_dir h) volumes_list
            \<and> ce ''container_usr'' = Some usr \<and> ce ''container_psw'' = Some psw
            \<and> ce ''container_uid'' = Some uid \<and> ce ''container_gid'' = Some gid
            \<and> cfg_container_run_cmd config = Some run_cmd
            \<and> dbi ''microros_base_image'' = Some b"
  then have f: "cfg_repo_author config = Some repo_author"
      "cfg_project_repo config = Some project_repo"
      "cfg_volumes config = Some volumes_list"
      "cfg_container_env config = Some ce"
      "cfg_ros2_distro config = Some ros2_distro"
      "cfg_target_platorm config = Some tp"
      "cfg_docker_base_images config = Some dbi"
      "cfg_docker_file_image_container config = Some dfic"
    and s: "cfg_supported config = Some s" "s ''architectures'' = Some archs"
    and ms: "s ''middlewares'' = Some mws" "''micro-ros'' \<in> set mws"
      "s ''ros2_distros'' = Some ds" "ros2_distro \<in> set ds"
    and dirs: "is_dir h (path_join h (ROOT_DIR h) project_repo)"
      "list_all (is_dir h) volumes_list"
    and u: "ce ''container_usr'' = Some usr" "ce ''container_psw'' = Some psw"
      "ce ''container_uid'' = Some uid" "ce ''container_gid'' = Some gid"
      "cfg_container_run_cmd config = Some run_cmd"
    and mb: "dbi ''microros_base_image'' = Some b"
    by simp_all
  note pe = partial_envs_fields [OF f(1-5) assms(1) f(6-8)]
  show "generate_config h config target_arch =
          ((if target_arch \<in> set archs
            then IsDir (path_join h (ROOT_DIR h) project_repo) # map IsDir volumes_list
            else [])
           @ [Print (unsupported_architecture target_arch archs)], Failed)"
  proof (cases "target_arch \<in> set archs")
    case False
    then show ?thesis
      by (intro generate_config_Failed) (simp add: pe check_constraints_arch [where s = s, OF s False])
  next
    case True
    note c = check_constraints_pass [where s = s, OF s True ms]
    note r = repo_env_pass [OF dirs(1)]
    note vo = volumes_env_pass [OF dirs(2)]
    note ce = container_env_pass [where ce = ce, OF u]
    note b = base_image_env_micro_ros_fail [where dbi = dbi, OF mb assms(2,3)]
    from True show ?thesis
      by (intro generate_config_Failed) (simp add: pe c r vo ce b cbind_Ok)
  qed
qed

lemma generate_config_micro_ros_aarch64:
  "generate_config host_example config_micro_ros ''aarch64'' =
     ([IsDir ''/ws/proj'', IsDir ''/data'',
       Print ''Unsupported architecture: aarch64, Supported architectures: develop, deploy, aarch64''],
      Failed)"
  by code_simp

theorem micro_ros_only_aliases_witness:
  "cfg_middleware config_micro_ros = Some ''micro-ros''
   \<and> ''aarch64'' \<noteq> ''develop'' \<and> ''aarch64'' \<noteq> ''deploy''
   \<and> ''aarch64'' \<in> set [''develop'', ''deploy'', ''aarch64'']
   \<and> snd (generate_config host_example config_micro_ros ''aarch64'') \<noteq> Ok env_example_deploy
   \<and> generate_config host_example config_micro_ros ''aarch64'' =
       ([IsDir ''/ws/proj'', IsDir ''/data'',
         Print (unsupported_architecture ''aarch64'' [''develop'', ''deploy'', ''aarch64''])],
        Failed)"
proof -
  have m: "cfg_middleware config_micro_ros = Some ''micro-ros''"
    by (simp add: config_micro_ros_def)
  have n: "''aarch64'' \<noteq> ''develop''" "''aarch64'' \<noteq> ''deploy''" by simp_all
  have a: "''aarch64'' \<in> set [''develop'', ''deploy'', ''aarch64'']" by simp
  note th = micro_ros_only_aliases [OF m n, where h = host_example
      and repo_author = "''vince''" and project_repo = "''proj''" and volumes_list = "[''/data'']"
      and ce = "[''container_usr'' \<mapsto> ''dev'', ''container_psw'' \<mapsto> ''pw'',
                 ''container_uid'' \<mapsto> ''1000'', ''container_gid'' \<mapsto> ''1000'']"
      and ros2_distro = "''humble''" and tp = "''linux''"
      and dbi = "[''x86_full_image'' \<mapsto> ''osrf/ros:ROS2_DISTRO-desktop'',
                  ''arm_base_image'' \<mapsto> ''arm64v8/ros:ROS2_DISTRO'',
                  ''microros_base_image'' \<mapsto> ''microros/base:ROS2_DISTRO'']"
      and dfic = "[''dockerfile'' \<mapsto> ''Dockerfile.MIDDLEWARE'',
                   ''docker_image'' \<mapsto> ''REPO_AUTHOR/PROJECT_REPO-ROS2_DISTRO'',
                   ''docker_container'' \<mapsto> ''PROJECT_REPO-TAG'']"
      and s = "[''architectures'' \<mapsto> [''develop'', ''deploy'', ''aarch64''],
                ''middlewares'' \<mapsto> [''ros2'', ''micro-ros''],
                ''ros2_distros'' \<mapsto> [''humble'']]"
      and archs = "[''develop'', ''deploy'', ''aarch64'']"
      and mws = "[''ros2'', ''micro-ros'']" and ds = "[''humble'']"
      and usr = "''dev''" and psw = "''pw''" and uid = "''1000''" and gid = "''1000''"
      and run_cmd = "''bash''" and b = "''microros/base:ROS2_DISTRO''"]
  from th have first: "snd (generate_config host_example config_micro_ros ''aarch64'') \<noteq> Ok env_example_deploy"
    by blast
  from th have second: "generate_config host_example config_micro_ros ''aarch64'' =
       ([IsDir ''/ws/proj'', IsDir ''/data'',
         Print (unsupported_architecture ''aarch64'' [''develop'', ''deploy'', ''aarch64''])],
        Failed)"
    by (simp add: config_micro_ros_def config_example_def host_example_def)
  from m n a first second show ?thesis by simp
qed

lemma micro_ros_accepts_aliases:
  "map_of (case snd (generate_config host_example config_micro_ros ''develop'') of
             Ok env \<Rightarrow> env | _ \<Rightarrow> []) ''BUILD_STAGE'' = Some ''develop-stage''"
  "map_of (case snd (generate_config host_example config_micro_ros ''deploy'') of
             Ok env \<Rightarrow> env | _ \<Rightarrow> []) ''BUILD_STAGE'' = Some ''deploy-stage''"
  by code_simp+

section \<open>Failures write nothing\<close>

lemma main_store:
  "fst (main h target_arch st) =
     (case yaml_documents h (SOURCE_FILEPATH h) of
        None \<Rightarrow> st
      | Some config \<Rightarrow>
          (case snd (generate_config h config target_arch) of
             Ok env_vars \<Rightarrow>
               fst (write_env_config h (ustring_dict env_vars) (TARGET_FILEPATH h) st)
           | _ \<Rightarrow> st))"
proof (cases "yaml_documents h (SOURCE_FILEPATH h)")
  case None
  then show ?thesis by (simp add: main_def load_yaml_config_def)
next
  case (Some config)
  obtain t r where g: "generate_config h config target_arch = (t, r)"
    by (cases "generate_config h config target_arch")
  show ?thesis
    by (cases r) (simp_all add: main_def load_yaml_config_def Some g split: prod.split)
qed

lemma run_generate_config_store:
  "fst (run_generate_config h root_dir (Some target_arch) st) =
     (case yaml_documents h (path_join h (path_join h root_dir ''config'') ''env.yaml'') of
        None \<Rightarrow> st
      | Some config \<Rightarrow>
          (case snd (generate_config h config (if target_arch = [] then platform_machine h else target_arch)) of
             Ok env_vars \<Rightarrow>
               fst (write_env_config h (ustring_dict env_vars)
                      (path_join h (path_join h root_dir ''config'') ''.env'') st)
           | _ \<Rightarrow> st))"
proof (cases "yaml_documents h (path_join h (path_join h root_dir ''config'') ''env.yaml'')")
  case None
  then show ?thesis by (simp add: run_generate_config_def load_yaml_config_def)
next
  case (Some config)
  obtain t r where g: "generate_config h config
      (if target_arch = [] then platform_machine h else target_arch) = (t, r)"
    by (cases "generate_config h config (if target_arch = [] then platform_machine h else target_arch)")
  show ?thesis
    using g
    by (cases r) (simp_all add: run_generate_config_def load_yaml_config_def Some split: prod.split)
qed

text \<open>
  C8.  On a configuration with its top-level fields present, when the target is outside
  the declared supported architectures or the middleware is outside the declared
  supported middlewares, resolution prints the diagnostic of the unsupported value (the
  architecture's when both are unsupported) and returns nothing; the entry points
  \<open>main\<close> and \<open>run_generate_config\<close> then leave the store of persisted files as it was.
\<close>

theorem unsupported_values_write_nothing:
  assumes "cfg_repo_author config = Some repo_author"
    and "cfg_project_repo config = Some project_repo"
    and "cfg_volumes config = Some volumes_list"
    and "cfg_container_env config = Some ce"
    and "cfg_ros2_distro config = Some ros2_distro"
    and "cfg_middleware config = Some middleware"
    and "cfg_target_platorm config = Some tp"
    and "cfg_docker_base_images config = Some dbi"
    and "cfg_docker_file_image_container config = Some dfic"
    and "cfg_supported config = Some s"
    and "s ''architectures'' = Some archs"
    and "s ''middlewares'' = Some mws"
    and "target_arch \<notin> set archs \<or> middleware \<notin> set mws"
  shows "generate_config h config target_arch =
           ([Print (if target_arch \<notin> set archs
                    then unsupported_architecture target_arch archs
                    else unsupported_middleware middleware mws)], Failed)
       \<and> (yaml_documents h (SOURCE_FILEPATH h) = Some config \<longrightarrow>
            fst (main h target_arch st) = st)
       \<and> (yaml_documents h (path_join h (path_join h root_dir ''config'') ''env.yaml'') = Some config
            \<and> target_arch \<noteq> [] \<longrightarrow>
            fst (run_generate_config h root_dir (Some target_arch) st) = st)"
proof -
  note pe = partial_envs_fields [OF assms(1-9)]
  have g: "generate_config h config target_arch =
           ([Print (if target_arch \<notin> set archs
                    then unsupported_architecture target_arch archs
                    else unsupported_middleware middleware mws)], Failed)"
  proof (cases "target_arch \<in> set archs")
    case False
    then show ?thesis
      by (intro generate_config_Failed)
         (simp add: pe check_constraints_arch [where s = s, OF assms(10,11) False])
  next
    case True
    with assms(13) have m: "middleware \<notin> set mws" by simp
    from True show ?thesis
      by (intro generate_config_Failed)
         (simp add: pe check_constraints_middleware [where s = s, OF assms(10,11) True assms(12) m])
  qed
  then have "snd (generate_config h config target_arch) = Failed" by simp
  then show ?thesis
    using g by (simp add: main_store run_generate_config_store)
qed

theorem unsupported_values_write_nothing_witness:
  "''riscv64'' \<notin> set [''develop'', ''deploy'', ''aarch64'']
   \<and> ''zenoh'' \<notin> set [''ros2'', ''micro-ros'']
   \<and> yaml_documents host_loaded (SOURCE_FILEPATH host_loaded) = Some config_unsupported
   \<and> generate_config host_loaded config_unsupported ''riscv64'' =
        ([Print (unsupported_architecture ''riscv64'' [''develop'', ''deploy'', ''aarch64''])], Failed)
   \<and> fst (main host_loaded ''riscv64'' Map.empty) = Map.empty
   \<and> fst (run_generate_config host_loaded ''/ws/rc'' (Some ''riscv64'') Map.empty) = Map.empty"
proof -
  let ?s = "[''architectures'' \<mapsto> [''develop'', ''deploy'', ''aarch64''],
             ''middlewares'' \<mapsto> [''ros2'', ''micro-ros''],
             ''ros2_distros'' \<mapsto> [''humble'']]"
  have n: "''riscv64'' \<notin> set [''develop'', ''deploy'', ''aarch64''] \<or> ''zenoh'' \<notin> set [''ros2'', ''micro-ros'']"
    by simp
  have y: "yaml_documents host_loaded (SOURCE_FILEPATH host_loaded) = Some config_unsupported"
    "path_join host_loaded (path_join host_loaded ''/ws/rc'' ''config'') ''env.yaml'' = ''/ws/rc/config/env.yaml''"
    "yaml_documents host_loaded ''/ws/rc/config/env.yaml'' = Some config_unsupported"
    by (simp_all add: host_loaded_def host_example_def SOURCE_FILEPATH_def)
  from unsupported_values_write_nothing [where config = config_unsupported and s = ?s
        and archs = "[''develop'', ''deploy'', ''aarch64'']" and target_arch = "''riscv64''"
        and mws = "[''ros2'', ''micro-ros'']" and middleware = "''zenoh''"
        and h = host_loaded and st = Map.empty and root_dir = "''/ws/rc''"]
  show ?thesis
    using n y by (simp add: config_unsupported_def config_example_def)
qed

section \<open>Template substitution\<close>

lemma generate_config_succeeds:
  assumes f: "cfg_repo_author config = Some repo_author"
      "cfg_project_repo config = Some project_repo"
      "cfg_volumes config = Some volumes_list"
      "cfg_container_env config = Some ce"
      "cfg_ros2_distro config = Some ros2_distro"
      "cfg_middleware config = Some middleware"
      "cfg_target_platorm config = Some tp"
      "cfg_docker_base_images config = Some dbi"
      "cfg_docker_file_image_container config = Some dfic"
    and c: "check_constraints config target_arch middleware ros2_distro = ([], Ok archs)"
    and r: "is_dir h (path_join h (ROOT_DIR h) project_repo)"
    and v: "list_all (is_dir h) volumes_list"
    and u: "ce ''container_usr'' = Some usr" "ce ''container_psw'' = Some psw"
      "ce ''container_uid'' = Some uid" "ce ''container_gid'' = Some gid"
      "cfg_container_run_cmd config = Some run_cmd"
    and cb: "choose_base_image dbi middleware target_arch archs =
               ([], Ok (base_image, build_stage, tag, arch))"
    and d: "dfic ''dockerfile'' = Some df" "dfic ''docker_image'' = Some di"
      "dfic ''docker_container'' = Some dc"
    and fl: "is_file h (path_join h (path_join h (ROBOTICS_CONTAINER_PATH h) ''docker'')
                 (replace df ''MIDDLEWARE'' middleware))"
  shows "generate_config h config target_arch =
     (IsDir (path_join h (ROOT_DIR h) project_repo) # map IsDir volumes_list
        @ [IsFile (path_join h (path_join h (ROBOTICS_CONTAINER_PATH h) ''docker'')
                     (replace df ''MIDDLEWARE'' middleware))],
      Ok [(''REPO_AUTHOR'', repo_author), (''PROJECT_REPO'', project_repo),
          (''LOCAL_WS_PATH'', path_join h (ROOT_DIR h) project_repo),
          (''VOLUMES'', bash_array_assignment volumes_list),
          (''CONTAINER_USR'', usr), (''CONTAINER_PSW'', psw), (''CONTAINER_UID'', uid),
          (''CONTAINER_GID'', gid), (''CONTAINER_HOME'', ''/home/'' @ usr),
          (''CONTAINER_WS'', (''/home/'' @ usr) @ ''/'' @ project_repo),
          (''CONTAINER_RUN_CMD'', run_cmd),
          (''BASE_IMAGE'', replace base_image ''ROS2_DISTRO'' ros2_distro),
          (''BUILD_STAGE'', build_stage), (''TARGET_ARCH'', arch),
          (''SOURCE_ARCH'', platform_machine h),
          (''DOCKERFILE'', replace df ''MIDDLEWARE'' middleware),
          (''DOCKER_IMAGE'',
           replace (replace (replace di ''REPO_AUTHOR'' repo_author)
                      ''PROJECT_REPO'' project_repo) ''ROS2_DISTRO'' ros2_distro),
          (''DOCKER_CONTAINER'', replace (replace dc ''PROJECT_REPO'' project_repo) ''TAG'' tag),
          (''DOCKER_IMAGE_TAG'', tag)])"
proof -
  have b: "base_image_env h dbi middleware target_arch ros2_distro archs =
      ([], Ok (tag, [(''BASE_IMAGE'', replace base_image ''ROS2_DISTRO'' ros2_distro),
                     (''BUILD_STAGE'', build_stage), (''TARGET_ARCH'', arch),
                     (''SOURCE_ARCH'', platform_machine h)]))"
    using cb by (simp add: base_image_env_Ok_iff)
  have i: "image_env h dfic middleware repo_author project_repo ros2_distro tag =
      ([IsFile (path_join h (path_join h (ROBOTICS_CONTAINER_PATH h) ''docker'')
                  (replace df ''MIDDLEWARE'' middleware))],
       Ok [(''DOCKERFILE'', replace df ''MIDDLEWARE'' middleware),
           (''DOCKER_IMAGE'',
            replace (replace (replace di ''REPO_AUTHOR'' repo_author)
                       ''PROJECT_REPO'' project_repo) ''ROS2_DISTRO'' ros2_distro),
           (''DOCKER_CONTAINER'',
            replace (replace dc ''PROJECT_REPO'' project_repo) ''TAG'' tag),
           (''DOCKER_IMAGE_TAG'', tag)])"
    using d fl by (simp add: image_env_Ok_iff)
  have pe: "partial_envs h config target_arch =
     (IsDir (path_join h (ROOT_DIR h) project_repo) # map IsDir volumes_list
        @ [IsFile (path_join h (path_join h (ROBOTICS_CONTAINER_PATH h) ''docker'')
                     (replace df ''MIDDLEWARE'' middleware))],
      Ok ([(''REPO_AUTHOR'', repo_author), (''PROJECT_REPO'', project_repo)],
          [(''LOCAL_WS_PATH'', path_join h (ROOT_DIR h) project_repo),
           (''VOLUMES'', bash_array_assignment volumes_list)],
          [(''CONTAINER_USR'', usr), (''CONTAINER_PSW'', psw), (''CONTAINER_UID'', uid),
           (''CONTAINER_GID'', gid), (''CONTAINER_HOME'', ''/home/'' @ usr),
           (''CONTAINER_WS'', (''/home/'' @ usr) @ ''/'' @ project_repo),
           (''CONTAINER_RUN_CMD'', run_cmd)],
          [(''BASE_IMAGE'', replace base_image ''ROS2_DISTRO'' ros2_distro),
           (''BUILD_STAGE'', build_stage), (''TARGET_ARCH'', arch),
           (''SOURCE_ARCH'', platform_machine h)],
          [(''DOCKERFILE'', replace df ''MIDDLEWARE'' middleware),
           (''DOCKER_IMAGE'',
            replace (replace (replace di ''REPO_AUTHOR'' repo_author)
                       ''PROJECT_REPO'' project_repo) ''ROS2_DISTRO'' ros2_distro),
           (''DOCKER_CONTAINER'',
            replace (replace dc ''PROJECT_REPO'' project_repo) ''TAG'' tag),
           (''DOCKER_IMAGE_TAG'', tag)]))"
    unfolding partial_envs_Ok_iff
    by (simp add: f c r v container_env_pass [OF u] b i)
  show ?thesis
    unfolding generate_config_Ok_iff
    by (intro exI conjI, rule pe) simp
qed

lemma template_names:
  assumes "generate_config h config target_arch = (t, Ok env)"
  shows "\<exists>repo_author project_repo ros2_distro middleware dbi dfic base_key base_image df di dc tag.
       cfg_repo_author config = Some repo_author
     \<and> cfg_project_repo config = Some project_repo
     \<and> cfg_ros2_distro config = Some ros2_distro
     \<and> cfg_middleware config = Some middleware
     \<and> cfg_docker_base_images config = Some dbi
     \<and> cfg_docker_file_image_container config = Some dfic
     \<and> base_key \<in> set [''x86_full_image'', ''arm_base_image'', ''microros_base_image'']
     \<and> dbi base_key = Some base_image
     \<and> dfic ''dockerfile'' = Some df
     \<and> dfic ''docker_image'' = Some di
     \<and> dfic ''docker_container'' = Some dc
     \<and> map_of env ''DOCKER_IMAGE_TAG'' = Some tag
     \<and> map_of env ''BASE_IMAGE'' = Some (replace base_image ''ROS2_DISTRO'' ros2_distro)
     \<and> map_of env ''DOCKERFILE'' = Some (replace df ''MIDDLEWARE'' middleware)
     \<and> map_of env ''DOCKER_IMAGE'' =
         Some (replace (replace (replace di ''REPO_AUTHOR'' repo_author)
                          ''PROJECT_REPO'' project_repo) ''ROS2_DISTRO'' ros2_distro)
     \<and> map_of env ''DOCKER_CONTAINER'' =
         Some (replace (replace dc ''PROJECT_REPO'' project_repo) ''TAG'' tag)"
proof -
  from assms obtain repo_author project_repo ros2_distro middleware dbi dfic archs
      base_image build_stage tag arch df di dc
    where f: "cfg_repo_author config = Some repo_author"
        "cfg_project_repo config = Some project_repo"
        "cfg_ros2_distro config = Some ros2_distro"
        "cfg_middleware config = Some middleware"
        "cfg_docker_base_images config = Some dbi"
        "cfg_docker_file_image_container config = Some dfic"
      and cb: "choose_base_image dbi middleware target_arch archs =
                 ([], Ok (base_image, build_stage, tag, arch))"
      and d: "dfic ''dockerfile'' = Some df" "dfic ''docker_image'' = Some di"
        "dfic ''docker_container'' = Some dc"
      and env: "map_of env ''DOCKER_IMAGE_TAG'' = Some tag"
        "map_of env ''BASE_IMAGE'' = Some (replace base_image ''ROS2_DISTRO'' ros2_distro)"
        "map_of env ''DOCKERFILE'' = Some (replace df ''MIDDLEWARE'' middleware)"
        "map_of env ''DOCKER_IMAGE'' =
           Some (replace (replace (replace di ''REPO_AUTHOR'' repo_author)
                            ''PROJECT_REPO'' project_repo) ''ROS2_DISTRO'' ros2_distro)"
        "map_of env ''DOCKER_CONTAINER'' =
           Some (replace (replace dc ''PROJECT_REPO'' project_repo) ''TAG'' tag)"
    by (rule generate_config_env) simp
  from cb have "dbi ''x86_full_image'' = Some base_image \<or> dbi ''arm_base_image'' = Some base_image
      \<or> dbi ''microros_base_image'' = Some base_image"
    unfolding choose_base_image_Ok_iff by blast
  then obtain base_key
    where "base_key \<in> set [''x86_full_image'', ''arm_base_image'', ''microros_base_image'']"
      and "dbi base_key = Some base_image"
    by (elim disjE) (rule that; simp)+
  with f d env show ?thesis by blast
qed

lemma leftover_no_failure:
  assumes f: "cfg_repo_author config = Some repo_author'"
      "cfg_project_repo config = Some project_repo'"
      "cfg_volumes config = Some volumes_list"
      "cfg_container_env config = Some ce"
      "cfg_ros2_distro config = Some ros2_distro'"
      "cfg_middleware config = Some middleware'"
      "cfg_target_platorm config = Some tp"
      "cfg_docker_base_images config = Some dbi'"
      "cfg_docker_file_image_container config = Some dfic'"
    and s: "cfg_supported config = Some s"
      "s ''architectures'' = Some archs"
      "target_arch \<in> set archs"
      "s ''middlewares'' = Some mws"
      "middleware' \<in> set mws"
      "s ''ros2_distros'' = Some ds"
      "ros2_distro' \<in> set ds"
    and r: "is_dir h (path_join h (ROOT_DIR h) project_repo')"
    and v: "list_all (is_dir h) volumes_list"
    and u: "ce ''container_usr'' = Some usr"
      "ce ''container_psw'' = Some psw"
      "ce ''container_uid'' = Some uid"
      "ce ''container_gid'' = Some gid"
      "cfg_container_run_cmd config = Some run_cmd"
    and row: "middleware' = ''ros2'' \<and> target_arch \<in> set [''develop'', ''x86_64'']
              \<and> base_key' = ''x86_full_image'' \<and> tag' = ''develop''
          \<or> middleware' = ''ros2'' \<and> target_arch \<in> set [''deploy'', ''arm'', ''aarch64'']
              \<and> base_key' = ''arm_base_image'' \<and> tag' = ''deploy''
          \<or> middleware' = ''micro-ros'' \<and> target_arch = ''develop''
              \<and> base_key' = ''microros_base_image'' \<and> tag' = ''develop''
          \<or> middleware' = ''micro-ros'' \<and> target_arch = ''deploy''
              \<and> base_key' = ''microros_base_image'' \<and> tag' = ''deploy''"
    and b: "dbi' base_key' = Some base_image'"
    and d: "dfic' ''dockerfile'' = Some df'"
      "dfic' ''docker_image'' = Some di'"
      "dfic' ''docker_container'' = Some dc'"
    and fl: "is_file h (path_join h (path_join h (ROBOTICS_CONTAINER_PATH h) ''docker'')
                      (replace df' ''MIDDLEWARE'' middleware'))"
  shows "\<exists>t' env'. generate_config h config target_arch = (t', Ok env')
       \<and> map_of env' ''DOCKER_IMAGE_TAG'' = Some tag'
       \<and> map_of env' ''BASE_IMAGE'' = Some (replace base_image' ''ROS2_DISTRO'' ros2_distro')
       \<and> map_of env' ''DOCKERFILE'' = Some (replace df' ''MIDDLEWARE'' middleware')
       \<and> map_of env' ''DOCKER_IMAGE'' =
           Some (replace (replace (replace di' ''REPO_AUTHOR'' repo_author')
                            ''PROJECT_REPO'' project_repo') ''ROS2_DISTRO'' ros2_distro')
       \<and> map_of env' ''DOCKER_CONTAINER'' =
           Some (replace (replace dc' ''PROJECT_REPO'' project_repo') ''TAG'' tag')"
proof -
  have c: "check_constraints config target_arch middleware' ros2_distro' = ([], Ok archs)"
    by (rule check_constraints_pass [OF s])
  from row b have "\<exists>build_stage arch. choose_base_image dbi' middleware' target_arch archs =
                 ([], Ok (base_image', build_stage, tag', arch))"
    unfolding choose_base_image_Ok_iff by (elim disjE conjE) simp_all
  then obtain build_stage arch
    where cb: "choose_base_image dbi' middleware' target_arch archs =
                 ([], Ok (base_image', build_stage, tag', arch))"
    by blast
  note g = generate_config_succeeds [OF f c r v u cb d fl]
  show ?thesis
    by (intro exI conjI, rule g) simp_all
qed

text \<open>
  C5, as stated: every placeholder of the image-name template is replaced by its resolved
  value, and a placeholder left over is a named failure.  On the image-name template
  \<open>REPO_AUTHOR/PROJECT_REPO-MIDDLEWARE:TAG\<close> resolution succeeds, and the generated image
  name still holds the tokens \<open>MIDDLEWARE\<close> and \<open>TAG\<close>.
\<close>

theorem leftover_placeholder_counterexample:
  "generate_config host_example config_leftover ''develop'' =
     (example_trace,
      Ok (env_example_develop[16 := (''DOCKER_IMAGE'', ''vince/proj-MIDDLEWARE:TAG'')]))"
  by code_simp

text \<open>
  C5, amended.  The generated names are the templates after these literal replacements
  and no others: \<open>ROS2_DISTRO\<close> in the chosen base-image template; \<open>MIDDLEWARE\<close> in the
  dockerfile-name template; \<open>REPO_AUTHOR\<close>, then \<open>PROJECT_REPO\<close>, then \<open>ROS2_DISTRO\<close> in the
  image-name template; \<open>PROJECT_REPO\<close>, then \<open>TAG\<close> in the container-name template.
  What these replacements leave of a template, any other token included, is the
  generated name, and no failure is raised for it.  The theorem has the two halves:
  whenever resolution succeeds the four names are these replacements; and whatever the
  four templates hold, resolution succeeds with these names as soon as the
  configuration is complete, the target, the middleware and the distribution are
  supported, the repository and the volumes exist, the middleware and the target select
  a base image, and the file named by the dockerfile-name template after its
  replacement exists.
\<close>

theorem template_substitution:
  "(generate_config h config target_arch = (t, Ok env) \<longrightarrow>
      (\<exists>repo_author project_repo ros2_distro middleware dbi dfic base_key base_image df di dc tag.
         cfg_repo_author config = Some repo_author
       \<and> cfg_project_repo config = Some project_repo
       \<and> cfg_ros2_distro config = Some ros2_distro
       \<and> cfg_middleware config = Some middleware
       \<and> cfg_docker_base_images config = Some dbi
       \<and> cfg_docker_file_image_container config = Some dfic
       \<and> base_key \<in> set [''x86_full_image'', ''arm_base_image'', ''microros_base_image'']
       \<and> dbi base_key = Some base_image
       \<and> dfic ''dockerfile'' = Some df
       \<and> dfic ''docker_image'' = Some di
       \<and> dfic ''docker_container'' = Some dc
       \<and> map_of env ''DOCKER_IMAGE_TAG'' = Some tag
       \<and> map_of env ''BASE_IMAGE'' = Some (replace base_image ''ROS2_DISTRO'' ros2_distro)
       \<and> map_of env ''DOCKERFILE'' = Some (replace df ''MIDDLEWARE'' middleware)
       \<and> map_of env ''DOCKER_IMAGE'' =
           Some (replace (replace (replace di ''REPO_AUTHOR'' repo_author)
                            ''PROJECT_REPO'' project_repo) ''ROS2_DISTRO'' ros2_distro)
       \<and> map_of env ''DOCKER_CONTAINER'' =
           Some (replace (replace dc ''PROJECT_REPO'' project_repo) ''TAG'' tag)))
   \<and> (cfg_repo_author config = Some repo_author'
       \<and> cfg_project_repo config = Some project_repo'
       \<and> cfg_volumes config = Some volumes_list
       \<and> cfg_container_env config = Some ce
       \<and> cfg_ros2_distro config = Some ros2_distro'
       \<and> cfg_middleware config = Some middleware'
       \<and> cfg_target_platorm config = Some tp
       \<and> cfg_docker_base_images config = Some dbi'
       \<and> cfg_docker_file_image_container config = Some dfic'
       \<and> cfg_supported config = Some s
       \<and> s ''architectures'' = Some archs \<and> target_arch \<in> set archs
       \<and> s ''middlewares'' = Some mws \<and> middleware' \<in> set mws
       \<and> s ''ros2_distros'' = Some ds \<and> ros2_distro' \<in> set ds
       \<and> is_dir h (path_join h (ROOT_DIR h) project_repo')
       \<and> list_all (is_dir h) volumes_list
       \<and> ce ''container_usr'' = Some usr \<and> ce ''container_psw'' = Some psw
       \<and> ce ''container_uid'' = Some uid \<and> ce ''container_gid'' = Some gid
       \<and> cfg_container_run_cmd config = Some run_cmd
       \<and> (middleware' = ''ros2'' \<and> target_arch \<in> set [''develop'', ''x86_64'']
              \<and> base_key' = ''x86_full_image'' \<and> tag' = ''develop''
          \<or> middleware' = ''ros2'' \<and> target_arch \<in> set [''deploy'', ''arm'', ''aarch64'']
              \<and> base_key' = ''arm_base_image'' \<and> tag' = ''deploy''
          \<or> middleware' = ''micro-ros'' \<and> target_arch = ''develop''
              \<and> base_key' = ''microros_base_image'' \<and> tag' = ''develop''
          \<or> middleware' = ''micro-ros'' \<and> target_arch = ''deploy''
              \<and> base_key' = ''microros_base_image'' \<and> tag' = ''deploy'')
       \<and> dbi' base_key' = Some base_image'
       \<and> dfic' ''dockerfile'' = Some df'
       \<and> dfic' ''docker_image'' = Some di'
       \<and> dfic' ''docker_container'' = Some dc'
       \<and> is_file h (path_join h (path_join h (ROBOTICS_CONTAINER_PATH h) ''docker'')
                      (replace df' ''MIDDLEWARE'' middleware'))
      \<longrightarrow>
      (\<exists>t' env'. generate_config h config target_arch = (t', Ok env')
       \<and> map_of env' ''DOCKER_IMAGE_TAG'' = Some tag'
       \<and> map_of env' ''BASE_IMAGE'' = Some (replace base_image' ''ROS2_DISTRO'' ros2_distro')
       \<and> map_of env' ''DOCKERFILE'' = Some (replace df' ''MIDDLEWARE'' middleware')
       \<and> map_of env' ''DOCKER_IMAGE'' =
           Some (replace (replace (replace di' ''REPO_AUTHOR'' repo_author')
                            ''PROJECT_REPO'' project_repo') ''ROS2_DISTRO'' ros2_distro')
       \<and> map_of env' ''DOCKER_CONTAINER'' =
           Some (replace (replace dc' ''PROJECT_REPO'' project_repo') ''TAG'' tag')))"
  apply (intro conjI impI)
   apply (rule template_names, assumption)
  apply (elim conjE)
  apply (rule leftover_no_failure; assumption)
  done

theorem template_substitution_witness:
  "generate_config host_leftovers config_leftovers ''develop'' =
     ([IsDir ''/ws/proj'', IsDir ''/data'', IsFile ''/ws/rc/docker/Dockerfile.ros2.TAG''],
      Ok (env_example_develop
            [11 := (''BASE_IMAGE'', ''osrf/ros:humble-TAG''),
             15 := (''DOCKERFILE'', ''Dockerfile.ros2.TAG''),
             16 := (''DOCKER_IMAGE'', ''vince/proj-MIDDLEWARE:TAG''),
             17 := (''DOCKER_CONTAINER'', ''proj-develop-MIDDLEWARE'')]))
   \<and> is_file host_leftovers ''/ws/rc/docker/Dockerfile.ros2.TAG''
   \<and> (\<exists>t env. generate_config host_leftovers config_leftovers ''develop'' = (t, Ok env)
         \<and> map_of env ''DOCKER_IMAGE_TAG'' = Some ''develop''
         \<and> map_of env ''BASE_IMAGE'' = Some ''osrf/ros:humble-TAG''
         \<and> map_of env ''DOCKERFILE'' = Some ''Dockerfile.ros2.TAG''
         \<and> map_of env ''DOCKER_IMAGE'' = Some ''vince/proj-MIDDLEWARE:TAG''
         \<and> map_of env ''DOCKER_CONTAINER'' = Some ''proj-develop-MIDDLEWARE'')
   \<and> (\<exists>dfic di. cfg_docker_file_image_container config_leftovers = Some dfic
         \<and> dfic ''docker_image'' = Some di
         \<and> map_of (env_example_develop
              [11 := (''BASE_IMAGE'', ''osrf/ros:humble-TAG''),
               15 := (''DOCKERFILE'', ''Dockerfile.ros2.TAG''),
               16 := (''DOCKER_IMAGE'', ''vince/proj-MIDDLEWARE:TAG''),
               17 := (''DOCKER_CONTAINER'', ''proj-develop-MIDDLEWARE'')])
              ''DOCKER_IMAGE'' =
             Some (replace (replace (replace di ''REPO_AUTHOR'' ''vince'')
                              ''PROJECT_REPO'' ''proj'') ''ROS2_DISTRO'' ''humble''))"
proof -
  have e: "generate_config host_leftovers config_leftovers ''develop'' =
     ([IsDir ''/ws/proj'', IsDir ''/data'', IsFile ''/ws/rc/docker/Dockerfile.ros2.TAG''],
      Ok (env_example_develop
            [11 := (''BASE_IMAGE'', ''osrf/ros:humble-TAG''),
             15 := (''DOCKERFILE'', ''Dockerfile.ros2.TAG''),
             16 := (''DOCKER_IMAGE'', ''vince/proj-MIDDLEWARE:TAG''),
             17 := (''DOCKER_CONTAINER'', ''proj-develop-MIDDLEWARE'')]))"
    by code_simp
  have c: "cfg_repo_author config_leftovers = Some ''vince''"
    "cfg_project_repo config_leftovers = Some ''proj''"
    "cfg_ros2_distro config_leftovers = Some ''humble''"
    by (simp_all add: config_leftovers_def config_example_def)
  have rp: "replace ''osrf/ros:ROS2_DISTRO-TAG'' ''ROS2_DISTRO'' ''humble'' = ''osrf/ros:humble-TAG''"
    "replace ''Dockerfile.MIDDLEWARE.TAG'' ''MIDDLEWARE'' ''ros2'' = ''Dockerfile.ros2.TAG''"
    "replace (replace (replace ''REPO_AUTHOR/PROJECT_REPO-MIDDLEWARE:TAG'' ''REPO_AUTHOR'' ''vince'')
        ''PROJECT_REPO'' ''proj'') ''ROS2_DISTRO'' ''humble'' = ''vince/proj-MIDDLEWARE:TAG''"
    "replace (replace ''PROJECT_REPO-TAG-MIDDLEWARE'' ''PROJECT_REPO'' ''proj'') ''TAG'' ''develop''
       = ''proj-develop-MIDDLEWARE''"
    by code_simp+
  have fl: "is_file host_leftovers ''/ws/rc/docker/Dockerfile.ros2.TAG''"
    by (simp add: host_leftovers_def host_example_def)
  have n: "\<exists>t env. generate_config host_leftovers config_leftovers ''develop'' = (t, Ok env)
         \<and> map_of env ''DOCKER_IMAGE_TAG'' = Some ''develop''
         \<and> map_of env ''BASE_IMAGE'' = Some ''osrf/ros:humble-TAG''
         \<and> map_of env ''DOCKERFILE'' = Some ''Dockerfile.ros2.TAG''
         \<and> map_of env ''DOCKER_IMAGE'' = Some ''vince/proj-MIDDLEWARE:TAG''
         \<and> map_of env ''DOCKER_CONTAINER'' = Some ''proj-develop-MIDDLEWARE''"
    using template_substitution
      [where h = host_leftovers and config = config_leftovers and target_arch = "''develop''"
         and repo_author' = "''vince''" and project_repo' = "''proj''"
         and volumes_list = "[''/data'']"
         and ce = "[''container_usr'' \<mapsto> ''dev'', ''container_psw'' \<mapsto> ''pw'',
                    ''container_uid'' \<mapsto> ''1000'', ''container_gid'' \<mapsto> ''1000'']"
         and ros2_distro' = "''humble''" and middleware' = "''ros2''" and tp = "''linux''"
         and dbi' = "[''x86_full_image'' \<mapsto> ''osrf/ros:ROS2_DISTRO-TAG'',
                      ''arm_base_image'' \<mapsto> ''arm64v8/ros:ROS2_DISTRO'',
                      ''microros_base_image'' \<mapsto> ''microros/base:ROS2_DISTRO'']"
         and dfic' = "[''dockerfile'' \<mapsto> ''Dockerfile.MIDDLEWARE.TAG'',
                       ''docker_image'' \<mapsto> ''REPO_AUTHOR/PROJECT_REPO-MIDDLEWARE:TAG'',
                       ''docker_container'' \<mapsto> ''PROJECT_REPO-TAG-MIDDLEWARE'']"
         and s = "[''architectures'' \<mapsto> [''develop'', ''deploy'', ''aarch64''],
                   ''middlewares'' \<mapsto> [''ros2'', ''micro-ros''],
                   ''ros2_distros'' \<mapsto> [''humble'']]"
         and archs = "[''develop'', ''deploy'', ''aarch64'']"
         and mws = "[''ros2'', ''micro-ros'']" and ds = "[''humble'']"
         and usr = "''dev''" and psw = "''pw''" and uid = "''1000''" and gid = "''1000''"
         and run_cmd = "''bash''" and base_key' = "''x86_full_image''" and tag' = "''develop''"
         and base_image' = "''osrf/ros:ROS2_DISTRO-TAG''"
         and df' = "''Dockerfile.MIDDLEWARE.TAG''"
         and di' = "''REPO_AUTHOR/PROJECT_REPO-MIDDLEWARE:TAG''"
         and dc' = "''PROJECT_REPO-TAG-MIDDLEWARE''", THEN conjunct2]
    by (simp add: config_leftovers_def config_example_def host_leftovers_def host_example_def rp)
  from template_substitution [THEN conjunct1, THEN mp, OF e] c
  have m: "\<exists>dfic di. cfg_docker_file_image_container config_leftovers = Some dfic
         \<and> dfic ''docker_image'' = Some di
         \<and> map_of (env_example_develop
              [11 := (''BASE_IMAGE'', ''osrf/ros:humble-TAG''),
               15 := (''DOCKERFILE'', ''Dockerfile.ros2.TAG''),
               16 := (''DOCKER_IMAGE'', ''vince/proj-MIDDLEWARE:TAG''),
               17 := (''DOCKER_CONTAINER'', ''proj-develop-MIDDLEWARE'')])
              ''DOCKER_IMAGE'' =
             Some (replace (replace (replace di ''REPO_AUTHOR'' ''vince'')
                              ''PROJECT_REPO'' ''proj'') ''ROS2_DISTRO'' ''humble'')"
    by (simp only: option.inject) blast
  from e fl n m show ?thesis by (intro conjI)
qed

section \<open>Writing and reading the persisted environment\<close>

text \<open>
  The configuration is resolved over 8-bit strings; the persisted file is written and
  read over all code points.  On the code points of an 8-bit string the whitespace of
  \<open>str.strip\<close> is the whitespace of the resolution.
\<close>

lemma unicode_space_of_char: "unicode_space (of_char c) = is_space c"
proof -
  define n where "n = (of_char c :: nat)"
  have "n < 256" by (simp add: n_def)
  then have "unicode_space n =
      ((9 \<le> n \<and> n \<le> 13) \<or> (28 \<le> n \<and> n \<le> 32) \<or> n = 133 \<or> n = 160)"
    by (auto simp: unicode_space_def)
  then show ?thesis by (simp add: is_space_def Let_def n_def)
qed

lemma unicode_linebreak_is_space: "unicode_linebreak c \<Longrightarrow> unicode_space c"
  by (auto simp: unicode_linebreak_def unicode_space_def)

lemma not_special_eq [simp]: "\<not> unicode_space 61" "\<not> unicode_linebreak 61"
  by (simp_all add: unicode_space_def unicode_linebreak_def)

lemma unicode_linebreak_LF [simp]: "unicode_linebreak 10" "unicode_linebreak 13"
  by (simp_all add: unicode_linebreak_def)

lemma ustring_of_eq [simp]: "ustring_of ''='' = [61]" "ustring_of ''#'' = [35]"
  by (simp_all add: ustring_of_def)

lemma strip_unchanged:
  "s = [] \<or> (\<not> unicode_space (hd s) \<and> \<not> unicode_space (last s)) \<Longrightarrow> strip_ustring s = s"
proof (elim disjE conjE)
  assume "s = []"
  then show ?thesis by (simp add: strip_ustring_def)
next
  assume h: "\<not> unicode_space (hd s)" and l: "\<not> unicode_space (last s)"
  show ?thesis
  proof (cases s)
    case Nil
    then show ?thesis by (simp add: strip_ustring_def)
  next
    case (Cons c cs)
    with h have d: "dropWhile unicode_space s = s" by simp
    from Cons have "rev s \<noteq> []" by simp
    moreover from l have "\<not> unicode_space (hd (rev s))" by (simp add: hd_rev)
    ultimately have "dropWhile unicode_space (rev s) = rev s" by (cases "rev s") simp_all
    with d show ?thesis by (simp add: strip_ustring_def)
  qed
qed

lemma strip_fixed_ends:
  assumes "strip_ustring s = s" and "s \<noteq> []"
  shows "\<not> unicode_space (hd s)" and "\<not> unicode_space (last s)"
proof -
  show "\<not> unicode_space (hd s)"
  proof
    assume sp: "unicode_space (hd s)"
    with assms(2) have "length (dropWhile unicode_space s) < length s"
      by (cases s) (simp_all add: le_imp_less_Suc length_dropWhile_le)
    moreover have "length (strip_ustring s) \<le> length (dropWhile unicode_space s)"
      using length_dropWhile_le [of unicode_space "rev (dropWhile unicode_space s)"]
      by (simp add: strip_ustring_def)
    ultimately show False using assms(1) by simp
  qed
  then have d: "dropWhile unicode_space s = s" using assms(2) by (cases s) simp_all
  show "\<not> unicode_space (last s)"
  proof
    assume sp: "unicode_space (last s)"
    from assms(2) have "rev s \<noteq> []" by simp
    moreover from sp have "unicode_space (hd (rev s))" by (simp add: hd_rev)
    ultimately have "length (dropWhile unicode_space (rev s)) < length (rev s)"
      by (cases "rev s") (simp_all add: le_imp_less_Suc length_dropWhile_le)
    then have "length (strip_ustring s) < length s" by (simp add: strip_ustring_def d)
    with assms(1) show False by simp
  qed
qed

lemma strip_line:
  assumes "strip_ustring k = k" and "strip_ustring v = v"
  shows "strip_ustring (k @ 61 # v) = k @ 61 # v"
proof (rule strip_unchanged, rule disjI2, rule conjI)
  show "\<not> unicode_space (hd (k @ 61 # v))"
    using strip_fixed_ends(1) [OF assms(1)] by (cases k) simp_all
  show "\<not> unicode_space (last (k @ 61 # v))"
    using strip_fixed_ends(2) [OF assms(2)] by (cases "v = []") simp_all
qed

lemma universal_newlines_unchanged:
  "13 \<notin> set s \<Longrightarrow> universal_newlines s = s"
  by (induction s rule: universal_newlines.induct) auto

lemma splitlines_from_line:
  "\<forall>c \<in> set l. \<not> unicode_linebreak c \<Longrightarrow>
     splitlines_from cur (l @ 10 # rest) = (cur @ l) # splitlines_from [] rest"
proof (induction l arbitrary: cur)
  case Nil
  show ?case by (cases rest) simp_all
next
  case (Cons c l)
  then have c: "\<not> unicode_linebreak c" and l: "\<forall>c \<in> set l. \<not> unicode_linebreak c" by simp_all
  from c have cr: "c \<noteq> 13" by auto
  obtain d ds where r: "l @ 10 # rest = d # ds" by (cases "l @ 10 # rest") simp_all
  have "splitlines_from cur ((c # l) @ 10 # rest) = splitlines_from (cur @ [c]) (l @ 10 # rest)"
    using c cr by (simp add: r)
  also have "\<dots> = ((cur @ [c]) @ l) # splitlines_from [] rest"
    using l by (rule Cons.IH)
  finally show ?case by simp
qed

lemma splitlines_env_lines:
  assumes "\<forall>kv \<in> set env. \<forall>c \<in> set (fst kv @ 61 # snd kv). \<not> unicode_linebreak c"
  shows "splitlines (concat (map env_line env)) = map (\<lambda>kv. fst kv @ 61 # snd kv) env"
  using assms
proof (induction env)
  case Nil
  show ?case by (simp add: splitlines_def)
next
  case (Cons kv env)
  then have l: "\<forall>c \<in> set (fst kv @ 61 # snd kv). \<not> unicode_linebreak c" by simp
  have "splitlines (concat (map env_line (kv # env))) =
      splitlines_from [] ((fst kv @ 61 # snd kv) @ 10 # concat (map env_line env))"
    by (simp add: splitlines_def env_line_def)
  also have "\<dots> = (fst kv @ 61 # snd kv) # splitlines (concat (map env_line env))"
    using splitlines_from_line [OF l, of "[]"] by (simp add: splitlines_def)
  finally show ?case using Cons by simp
qed

lemma parse_line_pair:
  assumes "strip_ustring k = k" and "strip_ustring v = v" and "61 \<notin> set k"
    and "\<not> startswith k [35]"
  shows "parse_line acc (k @ 61 # v) = dict_set acc k v"
proof -
  define line where "line = k @ 61 # v"
  have s: "strip_ustring line = line"
    unfolding line_def by (rule strip_line [OF assms(1,2)])
  have n: "line \<noteq> []" and e: "61 \<in> set line"
    by (simp_all add: line_def)
  have h: "\<not> startswith line [35]"
    using assms(4) by (cases k) (simp_all add: startswith_def line_def)
  have "takeWhile (\<lambda>c. c \<noteq> 61) (k @ 61 # v) = k @ takeWhile (\<lambda>c. c \<noteq> 61) (61 # v)"
    by (rule takeWhile_append2) (use assms(3) in auto)
  then have t: "takeWhile (\<lambda>c. c \<noteq> 61) line = k"
    by (simp add: line_def)
  have "dropWhile (\<lambda>c. c \<noteq> 61) (k @ 61 # v) = dropWhile (\<lambda>c. c \<noteq> 61) (61 # v)"
    by (rule dropWhile_append2) (use assms(3) in auto)
  then have d: "tl (dropWhile (\<lambda>c. c \<noteq> 61) line) = v"
    by (simp add: line_def)
  have "parse_line acc line = dict_set acc k v"
    by (simp add: parse_line_def Let_def s n e h t d assms(1,2))
  then show ?thesis by (simp only: line_def)
qed

lemma foldl_parse_lines:
  assumes "distinct (keys acc @ keys env)"
    and "\<forall>kv \<in> set env. strip_ustring (fst kv) = fst kv \<and> strip_ustring (snd kv) = snd kv
           \<and> 61 \<notin> set (fst kv) \<and> \<not> startswith (fst kv) [35]"
  shows "foldl parse_line acc (map (\<lambda>kv. fst kv @ 61 # snd kv) env) = acc @ env"
  using assms
proof (induction env arbitrary: acc)
  case Nil
  show ?case by simp
next
  case (Cons kv env)
  then have p: "parse_line acc (fst kv @ 61 # snd kv) = dict_set acc (fst kv) (snd kv)"
    by (intro parse_line_pair) simp_all
  from Cons.prems(1) have fresh: "fst kv \<notin> set (keys acc)" by (auto simp: keys_def)
  have s: "dict_set acc (fst kv) (snd kv) = acc @ [kv]"
    using dict_set_fresh [OF fresh, of "snd kv"] by simp
  have "foldl parse_line (acc @ [kv]) (map (\<lambda>kv. fst kv @ 61 # snd kv) env) = (acc @ [kv]) @ env"
    using Cons.prems by (intro Cons.IH) (auto simp: keys_def)
  then show ?case by (simp add: p s)
qed

lemma parse_written_text:
  assumes "distinct (keys env)"
    and "\<forall>k \<in> set (keys env). strip_ustring k = k \<and> 61 \<notin> set k \<and> \<not> startswith k [35]
           \<and> (\<forall>c \<in> set k. \<not> unicode_linebreak c)"
    and "\<forall>v \<in> set (map snd env). strip_ustring v = v \<and> (\<forall>c \<in> set v. \<not> unicode_linebreak c)"
  shows "foldl parse_line [] (splitlines (universal_newlines (concat (map env_line env)))) = env"
proof -
  have lb: "\<forall>kv \<in> set env. \<forall>c \<in> set (fst kv @ 61 # snd kv). \<not> unicode_linebreak c"
    using assms(2,3) by (auto simp: keys_def)
  have "c \<noteq> 13" if "c \<in> set (concat (map env_line env))" for c
  proof -
    from that obtain kv where kv: "kv \<in> set env" and c: "c \<in> set (env_line kv)" by auto
    from c have "c \<in> set (fst kv @ 61 # snd kv) \<or> c = 10"
      by (auto simp: env_line_def)
    then show ?thesis
    proof
      assume "c \<in> set (fst kv @ 61 # snd kv)"
      with lb kv have "\<not> unicode_linebreak c" by blast
      then show ?thesis using unicode_linebreak_LF(2) by blast
    next
      assume "c = 10"
      then show ?thesis by simp
    qed
  qed
  then have u: "universal_newlines (concat (map env_line env)) = concat (map env_line env)"
    by (intro universal_newlines_unchanged) auto
  have "foldl parse_line [] (map (\<lambda>kv. fst kv @ 61 # snd kv) env) = [] @ env"
    using assms by (intro foldl_parse_lines) (auto simp: keys_def)
  then show ?thesis
    by (simp add: u splitlines_env_lines [OF lb])
qed

text \<open>
  Every environment that resolution returns has the nineteen keys of \<open>resolved_keys\<close>,
  in that order; none of them holds \<open>=\<close>, starts with \<open>#\<close>, or is changed by
  \<open>str.strip\<close>.
\<close>

lemma resolved_env_keys:
  assumes "generate_config h config target_arch = (t, Ok env)"
  shows "keys env = resolved_keys"
proof -
  from assms obtain e1 e2 e3 e4 e5
    where pe: "partial_envs h config target_arch = (t, Ok (e1, e2, e3, e4, e5))"
      and env: "env = e1 @ e2 @ e3 @ e4 @ e5"
    unfolding generate_config_Ok_iff by blast
  show ?thesis
    by (simp add: env partial_envs_keys [OF pe] resolved_keys_def)
qed

lemma keys_ustring_dict: "keys (ustring_dict d) = map ustring_of (keys d)"
  by (simp add: keys_def ustring_dict_def)

lemma resolved_keys_well_formed:
  "list_all (\<lambda>k. strip_ustring k = k \<and> 61 \<notin> set k \<and> \<not> startswith k [35]
                \<and> list_all (\<lambda>c. \<not> unicode_linebreak c) k)
     (map ustring_of resolved_keys)"
  by (simp add: resolved_keys_def ustring_of_def strip_ustring_def unicode_space_def
        unicode_linebreak_def startswith_def)

lemma resolved_keys_distinct: "distinct (map ustring_of resolved_keys)"
  by (simp add: resolved_keys_def ustring_of_def)

lemmas ustring_eval_defs =
  ustring_dict_def ustring_of_def env_example_develop_def env_line_def host_example_def
  strip_ustring_def unicode_space_def unicode_linebreak_def startswith_def
  parse_env_file_def write_env_config_def splitlines_def parse_line_def Let_def

text \<open>
  C9, as stated: a resolved environment whose values hold no newline is read back equal
  to what was written.  With the run command \<open>bash\<close> followed by a space in the
  configuration, resolution succeeds, no value holds a newline, and the file that is
  written is read back with \<open>CONTAINER_RUN_CMD\<close> bound to \<open>bash\<close> without the space.
\<close>

theorem env_file_roundtrip_counterexample:
  "generate_config host_example config_trailing ''develop'' =
     (example_trace, Ok (env_example_develop[10 := (''CONTAINER_RUN_CMD'', ''bash '')]))
   \<and> list_all (\<lambda>v. 10 \<notin> set v)
        (map snd (ustring_dict (env_example_develop[10 := (''CONTAINER_RUN_CMD'', ''bash '')])))
   \<and> parse_env_file host_example
        (fst (write_env_config host_example
                (ustring_dict (env_example_develop[10 := (''CONTAINER_RUN_CMD'', ''bash '')]))
                ''/ws/rc/config/.env'' Map.empty))
        ''/ws/rc/config/.env''
      = Ok (ustring_dict env_example_develop)
   \<and> map_of (ustring_dict (env_example_develop[10 := (''CONTAINER_RUN_CMD'', ''bash '')]))
        (ustring_of ''CONTAINER_RUN_CMD'') = Some (ustring_of ''bash '')
   \<and> map_of (ustring_dict env_example_develop) (ustring_of ''CONTAINER_RUN_CMD'')
      = Some (ustring_of ''bash'')"
proof -
  have g: "generate_config host_example config_trailing ''develop'' =
     (example_trace, Ok (env_example_develop[10 := (''CONTAINER_RUN_CMD'', ''bash '')]))"
    by code_simp
  have n: "list_all (\<lambda>v. 10 \<notin> set v)
        (map snd (ustring_dict (env_example_develop[10 := (''CONTAINER_RUN_CMD'', ''bash '')])))"
    by (simp add: ustring_eval_defs)
  have p: "parse_env_file host_example
        (fst (write_env_config host_example
                (ustring_dict (env_example_develop[10 := (''CONTAINER_RUN_CMD'', ''bash '')]))
                ''/ws/rc/config/.env'' Map.empty))
        ''/ws/rc/config/.env''
      = Ok (ustring_dict env_example_develop)"
    by (simp add: ustring_eval_defs)
  have m: "map_of (ustring_dict (env_example_develop[10 := (''CONTAINER_RUN_CMD'', ''bash '')]))
        (ustring_of ''CONTAINER_RUN_CMD'') = Some (ustring_of ''bash '')"
    "map_of (ustring_dict env_example_develop) (ustring_of ''CONTAINER_RUN_CMD'')
      = Some (ustring_of ''bash'')"
    by (simp_all add: ustring_eval_defs)
  from g n p m show ?thesis by (intro conjI)
qed

text \<open>
  C9, amended.  Take an environment with the keys that resolution binds, in its order,
  whose values, over all code points, have no leading or trailing whitespace of
  \<open>str.strip\<close> and hold no line boundary of \<open>str.splitlines\<close>: newline, carriage
  return, vertical tab, form feed, the separators \<open>U+001C\<close> to \<open>U+001E\<close>, \<open>U+0085\<close>,
  \<open>U+2028\<close> and \<open>U+2029\<close>.  When the default encoding encodes every line and the bytes
  written decode under UTF-8 to the text written, as they do where the default encoding
  is UTF-8, writing the environment to the flat \<open>KEY=VALUE\<close> format and parsing the
  file back yields the same mapping, with its keys in the same order.
\<close>

theorem env_file_roundtrip:
  assumes "keys env = map ustring_of resolved_keys"
    and "\<forall>v \<in> set (map snd env). strip_ustring v = v \<and> (\<forall>c \<in> set v. \<not> unicode_linebreak c)"
    and "write_lines h (map env_line env) [] = (written, Ok ())"
    and "utf8_decode h written = Some (concat (map env_line env))"
  shows "parse_env_file h (fst (write_env_config h env filename st)) filename = Ok env"
proof -
  have d: "distinct (keys env)"
    unfolding assms(1) by (rule resolved_keys_distinct)
  have k: "\<forall>k \<in> set (keys env). strip_ustring k = k \<and> 61 \<notin> set k \<and> \<not> startswith k [35]
           \<and> (\<forall>c \<in> set k. \<not> unicode_linebreak c)"
    unfolding assms(1) using resolved_keys_well_formed by (simp only: list_all_iff)
  note p = parse_written_text [OF d k assms(2)]
  show ?thesis
    by (simp add: parse_env_file_def write_env_config_def assms(3,4) p)
qed

lemma example_values_trimmed:
  "list_all (\<lambda>v. strip_ustring v = v \<and> list_all (\<lambda>c. \<not> unicode_linebreak c) v)
     (map snd (ustring_dict env_example_develop))"
  by (simp add: ustring_eval_defs)

lemma example_written:
  "write_lines host_example (map env_line (ustring_dict env_example_develop)) [] =
     (concat (map env_line (ustring_dict env_example_develop)), Ok ())"
  "utf8_decode host_example (concat (map env_line (ustring_dict env_example_develop))) =
     Some (concat (map env_line (ustring_dict env_example_develop)))"
  by (simp_all add: ustring_eval_defs)

theorem env_file_roundtrip_witness:
  "generate_config host_example config_example ''develop'' = (example_trace, Ok env_example_develop)
   \<and> keys (ustring_dict env_example_develop) = map ustring_of resolved_keys
   \<and> list_all (\<lambda>v. strip_ustring v = v \<and> list_all (\<lambda>c. \<not> unicode_linebreak c) v)
        (map snd (ustring_dict env_example_develop))
   \<and> write_lines host_example (map env_line (ustring_dict env_example_develop)) [] =
        (concat (map env_line (ustring_dict env_example_develop)), Ok ())
   \<and> utf8_decode host_example (concat (map env_line (ustring_dict env_example_develop))) =
        Some (concat (map env_line (ustring_dict env_example_develop)))
   \<and> parse_env_file host_example
        (fst (write_env_config host_example (ustring_dict env_example_develop)
                ''/ws/rc/config/.env'' Map.empty))
        ''/ws/rc/config/.env'' = Ok (ustring_dict env_example_develop)"
proof -
  have k: "keys (ustring_dict env_example_develop) = map ustring_of resolved_keys"
    using resolved_env_keys [OF generate_config_example_develop]
    by (simp add: keys_ustring_dict)
  have v: "\<forall>v \<in> set (map snd (ustring_dict env_example_develop)).
             strip_ustring v = v \<and> (\<forall>c \<in> set v. \<not> unicode_linebreak c)"
    using example_values_trimmed by (simp only: list_all_iff)
  note r = env_file_roundtrip [OF k v example_written]
  from generate_config_example_develop k example_values_trimmed example_written r
  show ?thesis by (intro conjI)
qed

end
